theory Spec2Isabelle
  imports
    Main
    "HOL-Library.Word"
    "HOL-Library.Char_ord"
    "HOL-Library.List_Lexorder"
    "HOL-Library.Product_Lexorder"
begin

section \<open>Data model\<close>

text \<open>
  The driver of the basecaller: \<open>init_models\<close>, \<open>init_files\<close>, \<open>init_reads\<close>,
  \<open>rescale_reads\<close>, \<open>write_fasta\<close>, \<open>basecall_reads\<close> and \<open>real_main\<close>.
  The numeric engines (trainer, Viterbi, pore-model scaling, drift correction), the container
  reader and the file system are collaborators whose headers are not part of the sources; they
  enter the model as the fields of the record \<open>collab\<close> below. Line numbers refer to the
  version of the driver that has the rescaling pass; the earlier version has the basecalling
  pass only, with the assertion \<open>assert(not model_sublist.empty())\<close> on the shortlist.

  C++ \<open>unsigned\<close> is a 32-bit word. \<open>float\<close> values are only compared and added by the
  driver, so the fit type is a type parameter \<open>'f\<close>: the training loop needs nothing but
  \<open><\<close> and \<open>+\<close> on it, model selection needs a linear order.
\<close>

type_synonym unsigned = "32 word"

text \<open>
  How a run of the driver can fail to return a value: \<open>exit(EXIT_FAILURE)\<close> after a logged
  diagnostic, an uncaught \<open>std::out_of_range\<close> thrown by \<open>map::at\<close>, undefined behaviour
  (dereferencing \<open>end()\<close>, \<open>back()\<close> of an empty deque), a failed \<open>assert\<close>, or a loop
  that never ends.
\<close>

datatype error =
  Exit_failure string | Out_of_range | Undefined_behaviour | Assertion_failed | Diverges

text \<open>
  Modelled from the spec: \<open>Pore_Model_Parameters_Type\<close> (Pore_Model.hpp is not among the
  sources) holds the six scaling parameters; the driver reads only \<open>drift\<close>.
\<close>

record 'f Pore_Model_Parameters =
  shift :: 'f
  scale :: 'f
  drift :: 'f
  var :: 'f
  scale_sd :: 'f
  var_sd :: 'f

text \<open>
  Modelled from the spec: \<open>Pore_Model_Type\<close> is a k-mer table (kept abstract, \<open>'m\<close>)
  with a strand tag, 0 (template), 1 (complement) or 2 (either).
\<close>

record 'm Pore_Model =
  strand :: nat
  table :: 'm

text \<open>
  \<open>std::map\<close> iterates in ascending key order, so a dictionary whose iteration order is
  observed is an association list kept sorted by key. \<open>std::string\<close> compares bytewise
  and lexicographically, which is the order of \<open>char list\<close> here.
\<close>

type_synonym ('k, 'v) dict = "('k \<times> 'v) list"

fun dict_set :: "'k::linorder \<Rightarrow> 'v \<Rightarrow> ('k, 'v) dict \<Rightarrow> ('k, 'v) dict" where
  "dict_set k v [] = [(k, v)]"
| "dict_set k v ((k', v') # xs) =
     (if k < k' then (k, v) # (k', v') # xs
      else if k = k' then (k, v) # xs
      else (k', v') # dict_set k v xs)"

definition dict_count :: "('k, 'v) dict \<Rightarrow> 'k \<Rightarrow> bool" where
  "dict_count d k = (map_of d k \<noteq> None)"

definition dict_at :: "('k, 'v) dict \<Rightarrow> 'k \<Rightarrow> error + 'v" where
  "dict_at d k = (case map_of d k of None \<Rightarrow> Inl Out_of_range | Some v \<Rightarrow> Inr v)"

definition map_at :: "('k \<rightharpoonup> 'v) \<Rightarrow> 'k \<Rightarrow> error + 'v" where
  "map_at m k = (case m k of None \<Rightarrow> Inl Out_of_range | Some v \<Rightarrow> Inr v)"

type_synonym 'm Pore_Model_Dict = "(string, 'm Pore_Model) dict"

text \<open>
  Modelled from the spec: \<open>Fast5_Summary_Type\<close> (Fast5_Summary.hpp is not among the
  sources). Per read: the identifiers, whether detected events exist, the four strand bounds,
  the event vectors of strands 0 and 1, the scaling parameters per model name in the slots
  0, 1 and 2 (slot 2 is keyed by \<open>name0+name1\<close>), and the preferred model of each strand.
  The parameter maps are only read by key, so they are partial functions.
\<close>

record ('e, 'f) Fast5_Summary =
  read_id :: string
  base_file_name :: string
  have_ed_events :: bool
  strand_bounds :: "nat \<Rightarrow> unsigned"
  events :: "nat \<Rightarrow> 'e list"
  params :: "nat \<Rightarrow> (string \<rightharpoonup> 'f Pore_Model_Parameters)"
  preferred_model :: "nat \<Rightarrow> string"

text \<open>The command-line options the driver reads (namespace \<open>opts\<close>).\<close>

record 'f opts =
  stats_fn :: string
  min_read_len :: unsigned
  fasta_line_width :: unsigned
  scale_select_model_single_round :: bool
  scale_strands_together :: bool
  scale_min_fit_progress :: 'f
  scale_max_rounds :: unsigned
  scale_num_events :: unsigned
  scale_only :: bool
  accurate_scaling :: bool
  pr_cutoff :: 'f
  pr_skip :: 'f
  pr_stay :: 'f
  trans_fn :: string
  model_fofn :: string
  model_fn :: "string list"
  input_fn :: "string list"

definition ebind :: "error + 'a \<Rightarrow> ('a \<Rightarrow> error + 'b) \<Rightarrow> error + 'b" where
  "ebind m f = (case m of Inl e \<Rightarrow> Inl e | Inr v \<Rightarrow> f v)"

text \<open>A \<open>for\<close> loop over a list whose body can fail: the first failure ends the run.\<close>

fun efold :: "('a \<Rightarrow> 's \<Rightarrow> error + 's) \<Rightarrow> 'a list \<Rightarrow> 's \<Rightarrow> error + 's" where
  "efold f [] s = Inr s"
| "efold f (x # xs) s = ebind (f x s) (efold f xs)"

text \<open>
  The collaborators. \<open>train_one_round\<close> takes the training event sequences, one model per
  call site's pointer vector, the transitions and the old parameters, and yields the new
  parameters, the fit and the \<open>done\<close> flag (its three output arguments). \<open>pm_scale\<close> is
  \<open>Pore_Model_Type::scale\<close>, \<open>apply_drift_correction\<close> the method of the event sequence,
  \<open>viterbi\<close> is \<open>Viterbi_Type::fill\<close> followed by \<open>path_probability()\<close> and
  \<open>base_seq()\<close>, \<open>load_events\<close> and \<open>drop_events\<close> are the methods of the read summary,
  \<open>load_pore_model\<close> reads a pore model file (or fails), \<open>builtin_models\<close> is the table
  of \<open>Builtin_Model\<close> (name, strand, table), \<open>load_transitions\<close> and
  \<open>compute_transitions\<close> give the state transitions, \<open>summary_of\<close> is the constructor of
  the read summary and \<open>write_tsv\<close> its statistics line, and the last four fields are the
  file system as \<open>init_files\<close> and \<open>init_models\<close> query it (\<open>file_lines\<close> of \<open>-\<close> is
  standard input).
\<close>

record ('e, 'm, 'f, 't) collab =
  train_one_round ::
    "'e list list \<Rightarrow> 'm Pore_Model list \<Rightarrow> 't \<Rightarrow> 'f Pore_Model_Parameters
       \<Rightarrow> 'f Pore_Model_Parameters \<times> 'f \<times> bool"
  pm_scale :: "'m Pore_Model \<Rightarrow> 'f Pore_Model_Parameters \<Rightarrow> 'm Pore_Model"
  apply_drift_correction :: "'e list \<Rightarrow> 'f \<Rightarrow> 'e list"
  viterbi :: "'m Pore_Model \<Rightarrow> 't \<Rightarrow> 'e list \<Rightarrow> 'f \<times> string"
  load_events :: "bool \<Rightarrow> ('e, 'f) Fast5_Summary \<Rightarrow> ('e, 'f) Fast5_Summary"
  drop_events :: "('e, 'f) Fast5_Summary \<Rightarrow> ('e, 'f) Fast5_Summary"
  load_pore_model :: "string \<Rightarrow> error + 'm"
  builtin_models :: "(string \<times> nat \<times> 'm) list"
  load_transitions :: "string \<Rightarrow> error + 't"
  compute_transitions :: "'f \<Rightarrow> 'f \<Rightarrow> 'f \<Rightarrow> 't"
  summary_of :: "string \<Rightarrow> 'm Pore_Model_Dict \<Rightarrow> bool \<Rightarrow> ('e, 'f) Fast5_Summary"
  write_tsv :: "('e, 'f) Fast5_Summary \<Rightarrow> string"
  is_directory :: "string \<Rightarrow> bool"
  list_directory :: "string \<Rightarrow> string list"
  is_valid_file :: "string \<Rightarrow> bool"
  file_lines :: "string \<Rightarrow> string list"

section \<open>Candidate model shortlist\<close>

text \<open>
  \<open>rescale_reads\<close>, lines 245-268: the per-strand list of models to try. A strand with
  fewer than \<open>min_read_len\<close> events is skipped and keeps the empty list. The assertion at the
  end of the loop body tests \<open>model_list.empty()\<close>, where \<open>model_list\<close> is the
  \<open>std::array\<close> of two lists; \<open>std::array<T, N>::empty()\<close> is \<open>N == 0\<close>.
\<close>

definition enough_events :: "'f opts \<Rightarrow> ('e, 'f) Fast5_Summary \<Rightarrow> nat \<Rightarrow> bool" where
  "enough_events cfg rs st = (\<not> length (events rs st) < unat (min_read_len cfg))"

definition strand_models :: "'m Pore_Model_Dict \<Rightarrow> nat \<Rightarrow> string list" where
  "strand_models models st =
     map fst (filter (\<lambda>p. strand (snd p) = st \<or> strand (snd p) = 2) models)"

definition array_empty :: "nat \<Rightarrow> bool" where
  "array_empty N = (N = 0)"

definition rescale_model_list ::
  "'f opts \<Rightarrow> 'm Pore_Model_Dict \<Rightarrow> ('e, 'f) Fast5_Summary \<Rightarrow> error + (nat \<Rightarrow> string list)" where
  "rescale_model_list cfg models rs =
     efold (\<lambda>st model_list.
             if \<not> enough_events cfg rs st then Inr model_list
             else
               let model_list' =
                 (if dict_count models (preferred_model rs st)
                  then model_list(st := model_list st @ [preferred_model rs st])
                  else model_list(st := model_list st @ strand_models models st))
               in if \<not> (\<not> array_empty 2) then Inl Assertion_failed else Inr model_list')
          [0, 1] (\<lambda>_. [])"

text \<open>\<open>basecall_reads\<close>, lines 582-598: the same list, built per strand as \<open>model_sublist\<close>.\<close>

definition basecall_model_sublist ::
  "'m Pore_Model_Dict \<Rightarrow> ('e, 'f) Fast5_Summary \<Rightarrow> nat \<Rightarrow> string list" where
  "basecall_model_sublist models rs st =
     (if dict_count models (preferred_model rs st) then [preferred_model rs st]
      else strand_models models st)"

section \<open>Pass A: rescaling one read\<close>

text \<open>
  The log lines of \<open>rescale_reads\<close>, with the fields they print: read, strand, model, and the
  parameters, fits and round counter of the line. Round 0 prints \<open>-INFINITY\<close> as the old fit
  (\<open>None\<close> here) and the literal round 0.
\<close>

datatype 'f log_line =
    Scaling_round string nat string "'f Pore_Model_Parameters" "'f option"
      "'f Pore_Model_Parameters" 'f unsigned
  | Scaling_regression string nat string "'f Pore_Model_Parameters" 'f
      "'f Pore_Model_Parameters" 'f unsigned
  | Selected_model string nat string
  | Scaling_result string nat string "'f Pore_Model_Parameters" 'f unsigned

text \<open>
  Modelled from the spec: \<open>alg::max_of\<close> (alg.hpp is not among the sources) returns an
  iterator to the element whose value under the given function is largest, the first one in
  iteration order among equals, and \<open>end()\<close> (here \<open>None\<close>) on an empty range.
\<close>

fun max_of :: "('a \<Rightarrow> 'b::ord) \<Rightarrow> 'a list \<Rightarrow> 'a option" where
  "max_of f [] = None"
| "max_of f (x # xs) = Some (fold (\<lambda>y best. if f best < f y then y else best) xs x)"

text \<open>\<open>model_fit[m_name]\<close>: \<open>operator[]\<close> of \<open>std::map\<close> reads a value-initialised entry for a
  missing key.\<close>

definition fit_of :: "('k, 'f::zero) dict \<Rightarrow> 'k \<Rightarrow> 'f" where
  "fit_of model_fit k = (case map_of model_fit k of None \<Rightarrow> 0 | Some v \<Rightarrow> v)"

text \<open>
  Lines 272-283: the two training event sequences of a strand, a prefix and a suffix of
  \<open>n_events / 2\<close> events each.
\<close>

definition train_event_seqs ::
  "'f opts \<Rightarrow> ('e, 'f) Fast5_Summary \<Rightarrow> nat \<Rightarrow> 'e list list" where
  "train_event_seqs cfg rs =
     fold (\<lambda>st tes.
             if \<not> enough_events cfg rs st then tes
             else
               let n_events = min (unat (scale_num_events cfg)) (length (events rs st))
               in tes(st := tes st
                    @ [take (n_events div 2) (events rs st)]
                    @ [drop (length (events rs st) - n_events div 2) (events rs st)]))
          [0, 1] (\<lambda>_. [])"

lemma word_pred_less: "w \<noteq> 0 \<Longrightarrow> unat (w - 1) < unat (w :: unsigned)"
  by (simp add: unat_minus_one unat_gt_0)

lemma rounds_measure:
  assumes "(r :: unsigned) + 1 < m"
  shows "unat (m - (r + 1) - 1) < unat (m - r - 1)"
proof -
  have ne: "m - (r + 1) \<noteq> 0" using assms by auto
  have eq: "m - r - 1 = m - (r + 1)" by simp
  show ?thesis unfolding eq using ne by (rule word_pred_less)
qed

text \<open>
  The \<open>while (true)\<close> loop of lines 354-403 and, with the strand in place of 2, of lines
  467-516. \<open>tr\<close> is \<open>train_one_round\<close> applied to the event sequences, model pointers and
  transitions of the call site. The loop returns the final \<open>crt_pm_params\<close>, \<open>crt_fit\<close>,
  \<open>round\<close> and the log. \<open>round\<close> is an \<open>unsigned\<close>, so \<open>++round\<close> wraps.
\<close>

function converge_rounds ::
  "('f::{ord,plus}) opts \<Rightarrow> ('f Pore_Model_Parameters \<Rightarrow> 'f Pore_Model_Parameters \<times> 'f \<times> bool)
     \<Rightarrow> string \<Rightarrow> nat \<Rightarrow> string
     \<Rightarrow> 'f Pore_Model_Parameters \<Rightarrow> 'f \<Rightarrow> unsigned \<Rightarrow> 'f log_line list
     \<Rightarrow> 'f Pore_Model_Parameters \<times> 'f \<times> unsigned \<times> 'f log_line list" where
  "converge_rounds cfg tr rid st m_name old_pm_params old_fit round lg =
     (case tr old_pm_params of (crt_pm_params, crt_fit, done) \<Rightarrow>
        let lg1 = lg @ [Scaling_round rid st m_name old_pm_params (Some old_fit)
                          crt_pm_params crt_fit round]
        in if done then (crt_pm_params, crt_fit, round, lg1)
           else if crt_fit < old_fit
           then (old_pm_params, old_fit, round,
                 lg1 @ [Scaling_regression rid st m_name old_pm_params old_fit
                          crt_pm_params crt_fit round])
           else if scale_max_rounds cfg \<le> round + 1
                   \<or> (1 < round + 1 \<and> crt_fit < old_fit + scale_min_fit_progress cfg)
           then (crt_pm_params, crt_fit, round + 1, lg1)
           else converge_rounds cfg tr rid st m_name crt_pm_params crt_fit (round + 1) lg1)"
  by pat_completeness auto
termination
proof (relation "measure (\<lambda>(cfg, tr, rid, st, m_name, p, f, round, lg).
                   unat (scale_max_rounds cfg - round - 1))", goal_cases)
  case 1
  show ?case by simp
next
  case (2 cfg tr rid st m_name old_pm_params old_fit round lg x y xa ya xb)
  then have "round + 1 < scale_max_rounds cfg" by (simp add: not_le)
  then show ?case using rounds_measure [of round "scale_max_rounds cfg"] by simp
qed

text \<open>
  Lines 419-526, the branch that scales each strand on its own. The state threaded through
  the loops is the read summary, the \<open>model_fit\<close> map and the log.

  Round 0 for one model (lines 430-448). \<open>map::at\<close> throws for a missing key.
\<close>

definition separate_round0 ::
  "('e, 'm, 'f, 't) collab \<Rightarrow> 'm Pore_Model_Dict \<Rightarrow> 't \<Rightarrow> 'e list list \<Rightarrow> nat \<Rightarrow> string
     \<Rightarrow> ('e, 'f) Fast5_Summary \<times> (string, 'f) dict \<times> 'f log_line list
     \<Rightarrow> error + ('e, 'f) Fast5_Summary \<times> (string, 'f) dict \<times> 'f log_line list" where
  "separate_round0 co models transitions seqs st m_name = (\<lambda>(rs, model_fit, lg).
     ebind (map_at (params rs st) m_name) (\<lambda>old_pm_params.
     ebind (dict_at models m_name) (\<lambda>pm.
       case train_one_round co seqs [pm] transitions old_pm_params of
         (crt_pm_params, fit, done) \<Rightarrow>
           Inr (rs\<lparr>params := (params rs)(st := (params rs st)(m_name \<mapsto> crt_pm_params))\<rparr>,
                dict_set m_name fit model_fit,
                lg @ [Scaling_round (read_id rs) st m_name old_pm_params None
                        crt_pm_params fit 0]))))"

text \<open>Lines 449-460: with \<open>scale-select-model-single-round\<close>, keep only the best model.\<close>

definition separate_select ::
  "('f::ord) opts \<Rightarrow> nat \<Rightarrow> string list \<Rightarrow> (string, 'f) dict
     \<Rightarrow> ('e, 'f) Fast5_Summary \<times> 'f log_line list
     \<Rightarrow> error + ('e, 'f) Fast5_Summary \<times> string list \<times> 'f log_line list" where
  "separate_select cfg st model_list_st model_fit = (\<lambda>(rs, lg).
     if scale_select_model_single_round cfg then
       (case max_of snd model_fit of
          None \<Rightarrow> Inl Undefined_behaviour
        | Some it_max \<Rightarrow>
            Inr (rs\<lparr>preferred_model := (preferred_model rs)(st := fst it_max)\<rparr>,
                 [fst it_max],
                 lg @ [Selected_model (read_id rs) st (fst it_max)]))
     else Inr (rs, model_list_st, lg))"

text \<open>
  Lines 462-525: the remaining rounds for one model, and the write of the final parameters
  into \<open>params[st]\<close>. \<open>models.at(m_name)\<close> is looked up once here; the source evaluates
  it in every round, with the same key on the same constant dictionary.
\<close>

definition separate_converge ::
  "('f::{ord,plus,zero}) opts \<Rightarrow> ('e, 'm, 'f, 't) collab \<Rightarrow> 'm Pore_Model_Dict \<Rightarrow> 't
     \<Rightarrow> 'e list list \<Rightarrow> nat \<Rightarrow> (string, 'f) dict \<Rightarrow> string
     \<Rightarrow> ('e, 'f) Fast5_Summary \<times> 'f log_line list
     \<Rightarrow> error + ('e, 'f) Fast5_Summary \<times> 'f log_line list" where
  "separate_converge cfg co models transitions seqs st model_fit m_name = (\<lambda>(rs, lg).
     ebind (map_at (params rs st) m_name) (\<lambda>crt_pm_params0.
     ebind (dict_at models m_name) (\<lambda>pm.
       case converge_rounds cfg (train_one_round co seqs [pm] transitions) (read_id rs) st m_name
              crt_pm_params0 (fit_of model_fit m_name) 1 lg of
         (crt_pm_params, crt_fit, round, lg1) \<Rightarrow>
           Inr (rs\<lparr>params := (params rs)(st := (params rs st)(m_name \<mapsto> crt_pm_params))\<rparr>,
                lg1 @ [Scaling_result (read_id rs) st m_name crt_pm_params crt_fit round]))))"

definition rescale_strand ::
  "('f::{ord,plus,zero}) opts \<Rightarrow> ('e, 'm, 'f, 't) collab \<Rightarrow> 'm Pore_Model_Dict \<Rightarrow> 't
     \<Rightarrow> (nat \<Rightarrow> string list) \<Rightarrow> (nat \<Rightarrow> 'e list list) \<Rightarrow> nat
     \<Rightarrow> ('e, 'f) Fast5_Summary \<times> 'f log_line list
     \<Rightarrow> error + ('e, 'f) Fast5_Summary \<times> 'f log_line list" where
  "rescale_strand cfg co models transitions model_list tes st = (\<lambda>(rs, lg).
     if \<not> enough_events cfg rs st then Inr (rs, lg)
     else
       ebind (efold (separate_round0 co models transitions (tes st) st) (model_list st) (rs, [], lg))
         (\<lambda>(rs1, model_fit, lg1).
       ebind (separate_select cfg st (model_list st) model_fit (rs1, lg1))
         (\<lambda>(rs2, model_list_st, lg2).
       efold (separate_converge cfg co models transitions (tes st) st model_fit) model_list_st
         (rs2, lg2))))"

text \<open>
  Lines 287-416, the branch that scales both strands together. The combined key of
  \<open>params[2]\<close> is \<open>m_name_0 + '+' + m_name_1\<close>; \<open>model_fit\<close> is keyed by the pair.
\<close>

definition joint_name :: "string \<Rightarrow> string \<Rightarrow> string" where
  "joint_name m_name_0 m_name_1 = m_name_0 @ [CHR ''+''] @ m_name_1"

definition model_ptrs ::
  "(nat \<Rightarrow> 'e list list) \<Rightarrow> 'm Pore_Model \<Rightarrow> 'm Pore_Model \<Rightarrow> 'm Pore_Model list" where
  "model_ptrs tes pm0 pm1 = replicate (length (tes 0)) pm0 @ replicate (length (tes 1)) pm1"

definition together_round0 ::
  "('e, 'm, 'f, 't) collab \<Rightarrow> 'm Pore_Model_Dict \<Rightarrow> 't \<Rightarrow> (nat \<Rightarrow> 'e list list)
     \<Rightarrow> string \<Rightarrow> string
     \<Rightarrow> ('e, 'f) Fast5_Summary \<times> (string \<times> string, 'f) dict \<times> 'f log_line list
     \<Rightarrow> error + ('e, 'f) Fast5_Summary \<times> (string \<times> string, 'f) dict \<times> 'f log_line list" where
  "together_round0 co models transitions tes m_name_0 m_name_1 = (\<lambda>(rs, model_fit, lg).
     ebind (dict_at models m_name_0) (\<lambda>pm0.
     ebind (dict_at models m_name_1) (\<lambda>pm1.
     ebind (map_at (params rs 2) (joint_name m_name_0 m_name_1)) (\<lambda>old_pm_params.
       case train_one_round co (tes 0 @ tes 1) (model_ptrs tes pm0 pm1) transitions old_pm_params of
         (crt_pm_params, fit, done) \<Rightarrow>
           Inr (rs\<lparr>params := (params rs)
                       (2 := (params rs 2)(joint_name m_name_0 m_name_1 \<mapsto> crt_pm_params))\<rparr>,
                dict_set (m_name_0, m_name_1) fit model_fit,
                lg @ [Scaling_round (read_id rs) 2 (joint_name m_name_0 m_name_1)
                        old_pm_params None crt_pm_params fit 0])))))"

text \<open>Lines 327-340: the condition is \<open>true or ...\<close>, so the flag is not consulted.\<close>

definition together_select ::
  "('f::ord) opts \<Rightarrow> (nat \<Rightarrow> string list) \<Rightarrow> (string \<times> string, 'f) dict
     \<Rightarrow> ('e, 'f) Fast5_Summary \<times> 'f log_line list
     \<Rightarrow> error + ('e, 'f) Fast5_Summary \<times> (nat \<Rightarrow> string list) \<times> 'f log_line list" where
  "together_select cfg model_list model_fit = (\<lambda>(rs, lg).
     if True \<or> scale_select_model_single_round cfg then
       (case max_of snd model_fit of
          None \<Rightarrow> Inl Undefined_behaviour
        | Some it_max \<Rightarrow>
            Inr (rs\<lparr>preferred_model :=
                       (preferred_model rs)(0 := fst (fst it_max), 1 := snd (fst it_max))\<rparr>,
                 model_list(0 := [fst (fst it_max)], 1 := [snd (fst it_max)]),
                 lg @ [Selected_model (read_id rs) 2
                         (joint_name (fst (fst it_max)) (snd (fst it_max)))]))
     else Inr (rs, model_list, lg))"

text \<open>
  Lines 341-415: the remaining rounds for one pair, and the three writes of the final
  parameters. \<open>params[2].at\<close> throws for a missing key, \<open>params[0][...]\<close> and
  \<open>params[1][...]\<close> insert.
\<close>

definition together_converge ::
  "('f::{ord,plus,zero}) opts \<Rightarrow> ('e, 'm, 'f, 't) collab \<Rightarrow> 'm Pore_Model_Dict \<Rightarrow> 't
     \<Rightarrow> (nat \<Rightarrow> 'e list list) \<Rightarrow> (string \<times> string, 'f) dict \<Rightarrow> string \<Rightarrow> string
     \<Rightarrow> ('e, 'f) Fast5_Summary \<times> 'f log_line list
     \<Rightarrow> error + ('e, 'f) Fast5_Summary \<times> 'f log_line list" where
  "together_converge cfg co models transitions tes model_fit m_name_0 m_name_1 = (\<lambda>(rs, lg).
     ebind (dict_at models m_name_0) (\<lambda>pm0.
     ebind (dict_at models m_name_1) (\<lambda>pm1.
     ebind (map_at (params rs 2) (joint_name m_name_0 m_name_1)) (\<lambda>crt_pm_params0.
       case converge_rounds cfg
              (train_one_round co (tes 0 @ tes 1) (model_ptrs tes pm0 pm1) transitions)
              (read_id rs) 2 (joint_name m_name_0 m_name_1)
              crt_pm_params0 (fit_of model_fit (m_name_0, m_name_1)) 1 lg of
         (crt_pm_params, crt_fit, round, lg1) \<Rightarrow>
           Inr (rs\<lparr>params := (params rs)
                       (2 := (params rs 2)(joint_name m_name_0 m_name_1 \<mapsto> crt_pm_params),
                        0 := (params rs 0)(m_name_0 \<mapsto> crt_pm_params),
                        1 := (params rs 1)(m_name_1 \<mapsto> crt_pm_params))\<rparr>,
                lg1 @ [Scaling_result (read_id rs) 2 (joint_name m_name_0 m_name_1)
                         crt_pm_params crt_fit round])))))"

text \<open>Lines 298-326: round 0 for every pair of the two shortlists, from an empty
  \<open>model_fit\<close>.\<close>

definition together_all_round0 ::
  "('e, 'm, 'f, 't) collab \<Rightarrow> 'm Pore_Model_Dict \<Rightarrow> 't \<Rightarrow> (nat \<Rightarrow> 'e list list)
     \<Rightarrow> (nat \<Rightarrow> string list)
     \<Rightarrow> ('e, 'f) Fast5_Summary \<times> 'f log_line list
     \<Rightarrow> error + ('e, 'f) Fast5_Summary \<times> (string \<times> string, 'f) dict \<times> 'f log_line list" where
  "together_all_round0 co models transitions tes model_list = (\<lambda>(rs, lg).
     efold (\<lambda>m_name_0. efold (together_round0 co models transitions tes m_name_0)
                          (model_list 1))
       (model_list 0) (rs, [], lg))"

definition rescale_together ::
  "('f::{ord,plus,zero}) opts \<Rightarrow> ('e, 'm, 'f, 't) collab \<Rightarrow> 'm Pore_Model_Dict \<Rightarrow> 't
     \<Rightarrow> (nat \<Rightarrow> string list) \<Rightarrow> (nat \<Rightarrow> 'e list list)
     \<Rightarrow> ('e, 'f) Fast5_Summary \<times> 'f log_line list
     \<Rightarrow> error + ('e, 'f) Fast5_Summary \<times> 'f log_line list" where
  "rescale_together cfg co models transitions model_list tes = (\<lambda>(rs, lg).
     ebind (together_all_round0 co models transitions tes model_list (rs, lg))
       (\<lambda>(rs1, model_fit, lg1).
     ebind (together_select cfg model_list model_fit (rs1, lg1))
       (\<lambda>(rs2, model_list2, lg2).
     efold (\<lambda>m_name_0. efold (together_converge cfg co models transitions tes model_fit m_name_0)
                          (model_list2 1))
       (model_list2 0) (rs2, lg2))))"

text \<open>
  The body of \<open>process_item\<close> between \<open>load_events\<close> and \<open>drop_events\<close> (lines 242-528),
  and \<open>process_item\<close> itself.
\<close>

definition rescale_body ::
  "('f::{ord,plus,zero}) opts \<Rightarrow> ('e, 'm, 'f, 't) collab \<Rightarrow> 'm Pore_Model_Dict \<Rightarrow> 't
     \<Rightarrow> ('e, 'f) Fast5_Summary \<times> 'f log_line list
     \<Rightarrow> error + ('e, 'f) Fast5_Summary \<times> 'f log_line list" where
  "rescale_body cfg co models transitions = (\<lambda>(rs, lg).
     ebind (rescale_model_list cfg models rs) (\<lambda>model_list.
       let tes = train_event_seqs cfg rs in
       if scale_strands_together cfg \<and> enough_events cfg rs 0 \<and> enough_events cfg rs 1
       then rescale_together cfg co models transitions model_list tes (rs, lg)
       else efold (rescale_strand cfg co models transitions model_list tes) [0, 1] (rs, lg)))"

definition rescale_process_item ::
  "('f::{ord,plus,zero}) opts \<Rightarrow> ('e, 'm, 'f, 't) collab \<Rightarrow> 'm Pore_Model_Dict \<Rightarrow> 't
     \<Rightarrow> ('e, 'f) Fast5_Summary \<times> 'f log_line list
     \<Rightarrow> error + ('e, 'f) Fast5_Summary \<times> 'f log_line list" where
  "rescale_process_item cfg co models transitions = (\<lambda>(rs, lg).
     ebind (rescale_body cfg co models transitions (load_events co (scale_strands_together cfg) rs, lg))
       (\<lambda>(rs1, lg1). Inr (drop_events co rs1, lg1)))"

section \<open>Pass B: basecalling one read\<close>

text \<open>
  \<open>write_fasta\<close>, lines 538-545. \<open>os\<close> is what the stream holds so far. \<open>pos\<close> is an
  \<open>unsigned\<close>, compared with \<open>seq.size()\<close> as a \<open>size_t\<close> and advanced by
  \<open>fasta_line_width\<close> modulo \<open>2 ^ 32\<close>; nothing bounds the number of iterations, so the loop is
  a partial function and \<open>None\<close> stands for a run that never leaves it.
\<close>

definition endl :: string where
  "endl = [CHR 0x0A]"

partial_function (option) write_fasta_loop ::
  "unsigned \<Rightarrow> string \<Rightarrow> unsigned \<Rightarrow> string \<Rightarrow> string option" where
  "write_fasta_loop width seq pos os =
     (if unat pos < length seq
      then write_fasta_loop width seq (pos + width)
             (os @ take (unat width) (drop (unat pos) seq) @ endl)
      else Some os)"

declare write_fasta_loop.simps [code]

definition write_fasta :: "'f opts \<Rightarrow> string \<Rightarrow> string \<Rightarrow> string \<Rightarrow> string option" where
  "write_fasta cfg os name seq =
     write_fasta_loop (fasta_line_width cfg) seq 0 (os @ ''>'' @ name @ endl)"

text \<open>\<open>operator<<\<close> for an \<open>unsigned\<close>: the decimal digits.\<close>

fun dec :: "nat \<Rightarrow> string" where
  "dec n = (if n < 10 then [''0123456789'' ! n]
            else dec (n div 10) @ [''0123456789'' ! (n mod 10)])"

text \<open>Lines 653-654: the record name \<open>read_id:base_file_name:st\<close>.\<close>

definition record_name :: "('e, 'f) Fast5_Summary \<Rightarrow> nat \<Rightarrow> string" where
  "record_name rs st = read_id rs @ '':'' @ base_file_name rs @ '':'' @ dec st"

text \<open>
  The state \<open>process_item\<close> of \<open>basecall_reads\<close> works on: the model dictionary it shares
  with every other worker (a constant reference), the read summary \<open>reads[i]\<close> (a reference)
  and the output buffer \<open>oss\<close>.
\<close>

record ('e, 'm, 'f) basecall_state =
  shared_models :: "'m Pore_Model_Dict"
  read_summary :: "('e, 'f) Fast5_Summary"
  oss :: string

text \<open>
  Lines 610-643, one model of the sublist. \<open>pm\<close> is copy-constructed from the dictionary
  entry and then scaled; \<open>corrected_events\<close> is copy-constructed from \<open>events[st]\<close> and then
  drift-corrected. Both are values local to the iteration, so the methods that mutate them
  are functions from the copy to its new value. The log lines of this pass have no effect on
  the state or the output and are left out.
\<close>

definition basecall_model ::
  "('e, 'm, 'f, 't) collab \<Rightarrow> 't \<Rightarrow> nat \<Rightarrow> string
     \<Rightarrow> ('e, 'm, 'f) basecall_state \<times> ('f \<times> string \<times> string) list
     \<Rightarrow> error + ('e, 'm, 'f) basecall_state \<times> ('f \<times> string \<times> string) list" where
  "basecall_model co transitions st m_name = (\<lambda>(s, results).
     ebind (dict_at (shared_models s) m_name) (\<lambda>pm0.
     ebind (map_at (params (read_summary s) st) m_name) (\<lambda>pm_params.
       let pm = pm_scale co pm0 pm_params;
           corrected_events0 = events (read_summary s) st;
           corrected_events = apply_drift_correction co corrected_events0 (drift pm_params)
       in case viterbi co pm transitions corrected_events of
            (path_probability, base_seq) \<Rightarrow>
              Inr (s, results @ [(path_probability, m_name, base_seq)]))))"

text \<open>
  Lines 577-656, one strand. \<open>results.back()\<close> of an empty deque is undefined behaviour.
  \<open>std::sort\<close> orders the tuples lexicographically, as \<open>sort\<close> does on the product type.
\<close>

definition basecall_strand ::
  "('f::linorder) opts \<Rightarrow> ('e, 'm, 'f, 't) collab \<Rightarrow> 't \<Rightarrow> nat
     \<Rightarrow> ('e, 'm, 'f) basecall_state \<Rightarrow> error + ('e, 'm, 'f) basecall_state" where
  "basecall_strand cfg co transitions st s =
     (if \<not> enough_events cfg (read_summary s) st then Inr s
      else
        ebind (efold (basecall_model co transitions st)
                 (basecall_model_sublist (shared_models s) (read_summary s) st) (s, []))
          (\<lambda>(s1, results).
             if results = [] then Inl Undefined_behaviour
             else
               let best_m_name = fst (snd (last (sort results)));
                   base_seq = snd (snd (last (sort results)));
                   s2 = s1\<lparr>read_summary := (read_summary s1)
                          \<lparr>preferred_model :=
                             (preferred_model (read_summary s1))(st := best_m_name)\<rparr>\<rparr>
               in case write_fasta cfg (oss s2) (record_name (read_summary s2) st) base_seq of
                    None \<Rightarrow> Inl Diverges
                  | Some os \<Rightarrow> Inr (s2\<lparr>oss := os\<rparr>)))"

text \<open>The loop over the two strands, between \<open>load_events\<close> and \<open>drop_events\<close>, and
  \<open>process_item\<close> itself.\<close>

definition basecall_body ::
  "('f::linorder) opts \<Rightarrow> ('e, 'm, 'f, 't) collab \<Rightarrow> 't
     \<Rightarrow> ('e, 'm, 'f) basecall_state \<Rightarrow> error + ('e, 'm, 'f) basecall_state" where
  "basecall_body cfg co transitions = efold (basecall_strand cfg co transitions) [0, 1]"

definition basecall_process_item ::
  "('f::linorder) opts \<Rightarrow> ('e, 'm, 'f, 't) collab \<Rightarrow> 't
     \<Rightarrow> ('e, 'm, 'f) basecall_state \<Rightarrow> error + ('e, 'm, 'f) basecall_state" where
  "basecall_process_item cfg co transitions s =
     ebind (basecall_body cfg co transitions
              (s\<lparr>read_summary := load_events co (scale_strands_together cfg) (read_summary s)\<rparr>))
       (\<lambda>s1. Inr (s1\<lparr>read_summary := drop_events co (read_summary s1)\<rparr>))"

section \<open>Initialisation and the main routine\<close>

text \<open>
  \<open>init_models\<close>, lines 52-122. \<open>parse_model_name\<close> is its lambda; a name that does not
  parse ends the program with \<open>EXIT_FAILURE\<close>. \<open>model_list\<close> maps a strand to the list of
  file names given for it. A model is stored under its file name, so a later model of the
  same name replaces an earlier one.
\<close>

definition dquote :: string where
  "dquote = [CHR 0x22]"

definition parse_model_name :: "string \<Rightarrow> error + nat \<times> string" where
  "parse_model_name s =
     (if length s < 3
         \<or> (s ! 0 \<noteq> CHR ''0'' \<and> s ! 0 \<noteq> CHR ''1'' \<and> s ! 0 \<noteq> CHR ''2'')
         \<or> s ! 1 \<noteq> CHR '':''
      then Inl (Exit_failure (''could not parse model name: '' @ dquote @ s @ dquote
                  @ ''; format should be '' @ dquote @ ''[0|1|2]:<file>'' @ dquote))
      else Inr (of_char (s ! 0) - of_char CHR ''0'', drop 2 s))"

definition add_model_name ::
  "string \<Rightarrow> (nat \<Rightarrow> string list) \<Rightarrow> error + (nat \<Rightarrow> string list)" where
  "add_model_name s model_list =
     ebind (parse_model_name s) (\<lambda>p. Inr (model_list(fst p := model_list (fst p) @ [snd p])))"

definition load_models ::
  "('e, 'm, 'f, 't) collab \<Rightarrow> (nat \<Rightarrow> string list) \<Rightarrow> error + 'm Pore_Model_Dict" where
  "load_models co model_list =
     efold (\<lambda>st. efold (\<lambda>e models.
                      ebind (load_pore_model co e)
                        (\<lambda>tbl. Inr (dict_set e \<lparr>strand = st, table = tbl\<rparr> models)))
                  (model_list st))
       [0, 1, 2] []"

definition init_models :: "'f opts \<Rightarrow> ('e, 'm, 'f, 't) collab \<Rightarrow> error + 'm Pore_Model_Dict" where
  "init_models cfg co =
     ebind (if model_fn cfg \<noteq> [] then efold add_model_name (model_fn cfg) (\<lambda>_. [])
            else Inr (\<lambda>_. []))
       (\<lambda>model_list1.
     ebind (if model_fofn cfg \<noteq> []
            then efold add_model_name (file_lines co (model_fofn cfg)) model_list1
            else Inr model_list1)
       (\<lambda>model_list.
          if model_list 2 = [] \<and> ((model_list 0 = []) \<noteq> (model_list 1 = []))
          then Inl (Exit_failure (''models were specified only for strand ''
                      @ dec (if model_list 0 = [] then 1 else 0)
                      @ ''! give models for both strands, or for neither.''))
          else if \<not> (model_list 0 = [] \<and> model_list 1 = [] \<and> model_list 2 = [])
          then load_models co model_list
          else Inr (fold (\<lambda>b models.
                            dict_set (fst b) \<lparr>strand = fst (snd b), table = snd (snd b)\<rparr> models)
                      (builtin_models co) [])))"

text \<open>\<open>init_transitions\<close>, lines 124-137.\<close>

definition init_transitions :: "'f opts \<Rightarrow> ('e, 'm, 'f, 't) collab \<Rightarrow> error + 't" where
  "init_transitions cfg co =
     (if trans_fn cfg \<noteq> [] then load_transitions co (trans_fn cfg)
      else Inr (compute_transitions co (pr_skip cfg) (pr_stay cfg) (pr_cutoff cfg)))"

text \<open>
  \<open>init_files\<close>, lines 142-205: the files found under the input arguments, and the exit
  when there are none. (For an empty argument string that is a directory, \<open>f[f.size() - 1]\<close>
  reads out of range; \<open>last []\<close> stands for whatever is read.)
\<close>

definition found_files :: "'f opts \<Rightarrow> ('e, 'm, 'f, 't) collab \<Rightarrow> string list" where
  "found_files cfg co =
     concat (map (\<lambda>f.
       if is_directory co f
       then concat (map (\<lambda>g.
              let f2 = f @ (if last f \<noteq> CHR ''/'' then ''/'' else []) @ g
              in if is_directory co f2 then []
                 else if is_valid_file co f2 then [f2]
                 else [])
            (list_directory co f))
       else if f \<noteq> ''-'' \<and> is_valid_file co f then [f]
       else filter (is_valid_file co) (file_lines co f))
     (input_fn cfg))"

definition init_files :: "'f opts \<Rightarrow> ('e, 'm, 'f, 't) collab \<Rightarrow> error + string list" where
  "init_files cfg co =
     (if found_files cfg co = [] then Inl (Exit_failure ''no fast5 files to process'')
      else Inr (found_files cfg co))"

text \<open>
  \<open>init_reads\<close>, lines 207-222: a read is kept when it has detected events and one of its
  strands spans at least \<open>min_read_len\<close> events. The bounds are taken to be \<open>unsigned\<close>.
\<close>

definition init_reads ::
  "'f opts \<Rightarrow> ('e, 'm, 'f, 't) collab \<Rightarrow> 'm Pore_Model_Dict \<Rightarrow> string list
     \<Rightarrow> ('e, 'f) Fast5_Summary list" where
  "init_reads cfg co models files =
     filter (\<lambda>s. have_ed_events s
                \<and> (strand_bounds s 0 + min_read_len cfg \<le> strand_bounds s 1
                   \<or> strand_bounds s 2 + min_read_len cfg \<le> strand_bounds s 3))
       (map (\<lambda>f. summary_of co f models (scale_strands_together cfg)) files)"

text \<open>
  The producer closure \<open>get_item\<close> of both passes (lines 233-237 and 568-572), called until
  it returns false: the items it hands out, in order. \<open>crt_idx\<close> is an \<open>unsigned\<close> compared
  with \<open>reads.size()\<close>, so with \<open>2 ^ 32\<close> reads or more it would never return false.
\<close>

partial_function (option) dispense ::
  "nat \<Rightarrow> unsigned \<Rightarrow> unsigned list \<Rightarrow> unsigned list option" where
  "dispense n crt_idx items =
     (if n \<le> unat crt_idx then Some items
      else dispense n (crt_idx + 1) (items @ [crt_idx]))"

declare dispense.simps [code]

text \<open>
  Modelled from the spec: \<open>pfor::pfor\<close> (pfor.hpp is not among the sources) runs
  \<open>process_item\<close> on every item the producer hands out and passes the output buffers to the
  output callback in the order the items were requested. The model is the run with one
  worker: the items are processed in that order on a state that holds the reads and the
  output written so far.
\<close>

definition pfor :: "nat \<Rightarrow> (unsigned \<Rightarrow> 's \<Rightarrow> error + 's) \<Rightarrow> 's \<Rightarrow> error + 's" where
  "pfor n process_item s =
     (case dispense n 0 [] of None \<Rightarrow> Inl Diverges | Some items \<Rightarrow> efold process_item items s)"

definition rescale_reads ::
  "('f::{ord,plus,zero}) opts \<Rightarrow> ('e, 'm, 'f, 't) collab \<Rightarrow> 'm Pore_Model_Dict \<Rightarrow> 't
     \<Rightarrow> ('e, 'f) Fast5_Summary list \<times> 'f log_line list
     \<Rightarrow> error + ('e, 'f) Fast5_Summary list \<times> 'f log_line list" where
  "rescale_reads cfg co models transitions = (\<lambda>(reads, lg).
     pfor (length reads)
       (\<lambda>i (reads, lg).
          ebind (rescale_process_item cfg co models transitions (reads ! unat i, lg))
            (\<lambda>(read_summary, lg1). Inr (reads[unat i := read_summary], lg1)))
       (reads, lg))"

definition basecall_reads ::
  "('f::linorder) opts \<Rightarrow> ('e, 'm, 'f, 't) collab \<Rightarrow> 'm Pore_Model_Dict \<Rightarrow> 't
     \<Rightarrow> ('e, 'f) Fast5_Summary list
     \<Rightarrow> error + ('e, 'f) Fast5_Summary list \<times> string" where
  "basecall_reads cfg co models transitions reads =
     pfor (length reads)
       (\<lambda>i (reads, os).
          ebind (basecall_process_item cfg co transitions
                   \<lparr>shared_models = models, read_summary = reads ! unat i, oss = os\<rparr>)
            (\<lambda>s. Inr (reads[unat i := read_summary s], oss s)))
       (reads, [])"

text \<open>
  \<open>real_main\<close>, lines 670-702. A run that returns gives \<open>EXIT_SUCCESS\<close>, the sequence
  output, the statistics file if one was asked for, and the log of the rescaling pass.
\<close>

record 'f run =
  exit_code :: nat
  sequence_output :: string
  stats_output :: "string option"
  scaling_log :: "'f log_line list"

definition EXIT_SUCCESS :: nat where
  "EXIT_SUCCESS = 0"

definition EXIT_FAILURE :: nat where
  "EXIT_FAILURE = 1"

definition real_main ::
  "('f::{linorder,plus,zero}) opts \<Rightarrow> ('e, 'm, 'f, 't) collab \<Rightarrow> error + 'f run" where
  "real_main cfg co =
     ebind (init_models cfg co) (\<lambda>models.
     ebind (init_transitions cfg co) (\<lambda>transitions.
     ebind (init_files cfg co) (\<lambda>files.
       let reads = init_reads cfg co models files in
       ebind (if accurate_scaling cfg \<or> scale_strands_together cfg
                 \<or> scale_select_model_single_round cfg
              then rescale_reads cfg co models transitions (reads, [])
              else Inr (reads, []))
         (\<lambda>(reads1, lg).
       ebind (if \<not> scale_only cfg then basecall_reads cfg co models transitions reads1
              else Inr (reads1, []))
         (\<lambda>(reads2, os).
            Inr \<lparr>exit_code = EXIT_SUCCESS, sequence_output = os,
                 stats_output =
                   (if stats_fn cfg \<noteq> []
                    then Some (concat (map (\<lambda>s. write_tsv co s @ endl) reads2))
                    else None),
                 scaling_log = lg\<rparr>)))))"

text \<open>The exit code of the process: that of \<open>real_main\<close>, or \<open>EXIT_FAILURE\<close> after
  \<open>exit(EXIT_FAILURE)\<close>; a run that aborts or never ends has none.\<close>

definition exit_status :: "error + 'f run \<Rightarrow> nat option" where
  "exit_status r =
     (case r of Inr v \<Rightarrow> Some (exit_code v)
      | Inl (Exit_failure msg) \<Rightarrow> Some EXIT_FAILURE
      | Inl e \<Rightarrow> None)"

section \<open>Auxiliary notions\<close>

text \<open>The defaults of the options the driver itself consults, lines 29-49. The three
  transition probabilities (defaults .001, .1, .1) are only passed on to the transition
  builder; they are set to 1 here.\<close>

definition default_opts :: "('f::one) opts" where
  "default_opts = \<lparr>stats_fn = [], min_read_len = 1000, fasta_line_width = 80,
     scale_select_model_single_round = False, scale_strands_together = False,
     scale_min_fit_progress = 1, scale_max_rounds = 10, scale_num_events = 200,
     scale_only = False, accurate_scaling = False, pr_cutoff = 1, pr_skip = 1, pr_stay = 1,
     trans_fn = [], model_fofn = [], model_fn = [], input_fn = []\<rparr>"

text \<open>A sequence cut into consecutive pieces of \<open>w\<close> elements, the last one possibly
  shorter: what the lines of a record are compared with.\<close>

fun chunks :: "nat \<Rightarrow> 'a list \<Rightarrow> 'a list list" where
  "chunks w xs = (if w = 0 \<or> xs = [] then [] else take w xs # chunks w (drop w xs))"

text \<open>The shortlist of a strand as both passes build it, empty for a strand that is
  skipped.\<close>

definition shortlist_of ::
  "'f opts \<Rightarrow> 'm Pore_Model_Dict \<Rightarrow> ('e, 'f) Fast5_Summary \<Rightarrow> nat \<Rightarrow> string list" where
  "shortlist_of cfg models rs st =
     (if \<not> enough_events cfg rs st then []
      else if dict_count models (preferred_model rs st) then [preferred_model rs st]
      else strand_models models st)"

text \<open>
  What one run of Viterbi for a model of the sublist yields in state \<open>s\<close>: the dictionary
  entry and the parameters of the model exist, and the tuple is Viterbi's answer on the scaled
  entry and the drift-corrected events of \<open>s\<close>.
\<close>

definition model_result ::
  "('e, 'm, 'f, 't) collab \<Rightarrow> 't \<Rightarrow> ('e, 'm, 'f) basecall_state \<Rightarrow> nat \<Rightarrow> string
     \<Rightarrow> 'f \<times> string \<times> string \<Rightarrow> bool" where
  "model_result co transitions s st m_name r =
     (\<exists>pm0 p. dict_at (shared_models s) m_name = Inr pm0
        \<and> map_at (params (read_summary s) st) m_name = Inr p
        \<and> r = (fst (viterbi co (pm_scale co pm0 p) transitions
                       (apply_drift_correction co (events (read_summary s) st) (drift p))),
                m_name,
                snd (viterbi co (pm_scale co pm0 p) transitions
                       (apply_drift_correction co (events (read_summary s) st) (drift p)))))"

text \<open>Two states with the same model dictionary, events and parameters.\<close>

definition same_frame ::
  "('e, 'm, 'f) basecall_state \<Rightarrow> ('e, 'm, 'f) basecall_state \<Rightarrow> bool" where
  "same_frame s s' =
     (shared_models s' = shared_models s
      \<and> events (read_summary s') = events (read_summary s)
      \<and> params (read_summary s') = params (read_summary s))"

section \<open>Rounds of the training loop\<close>

text \<open>
  One pass through the loop body that does not leave the loop: the round was neither
  \<open>done\<close> nor a regression, and the stop condition was false. The relation links the
  values of \<open>crt_pm_params\<close>, \<open>crt_fit\<close>, \<open>round\<close> and the log at the head of one
  iteration to their values at the head of the next.
\<close>

inductive next_round ::
  "('f::{ord,plus}) opts \<Rightarrow> ('f Pore_Model_Parameters \<Rightarrow> 'f Pore_Model_Parameters \<times> 'f \<times> bool)
     \<Rightarrow> string \<Rightarrow> nat \<Rightarrow> string
     \<Rightarrow> 'f Pore_Model_Parameters \<times> 'f \<times> unsigned \<times> 'f log_line list
     \<Rightarrow> 'f Pore_Model_Parameters \<times> 'f \<times> unsigned \<times> 'f log_line list \<Rightarrow> bool"
  for cfg tr rid st m_name where
  "tr p = (p', f', False) \<Longrightarrow> \<not> f' < f
     \<Longrightarrow> \<not> (scale_max_rounds cfg \<le> r + 1 \<or> (1 < r + 1 \<and> f' < f + scale_min_fit_progress cfg))
     \<Longrightarrow> next_round cfg tr rid st m_name (p, f, r, lg)
           (p', f', r + 1, lg @ [Scaling_round rid st m_name p (Some f) p' f' r])"

text \<open>
  Every call of \<open>train_one_round\<close> is followed by one \<open>scaling_round\<close> log line, so the
  training rounds of a strand and model are counted in the log.
\<close>

fun is_scaling_round :: "nat \<Rightarrow> string \<Rightarrow> 'f log_line \<Rightarrow> bool" where
  "is_scaling_round st m_name (Scaling_round rid st' m' old_p old_f p f r) =
     (st' = st \<and> m' = m_name)"
| "is_scaling_round st m_name l = False"

definition training_rounds :: "nat \<Rightarrow> string \<Rightarrow> 'f log_line list \<Rightarrow> nat" where
  "training_rounds st m_name lg = length (filter (is_scaling_round st m_name) lg)"

section \<open>A small concrete instance\<close>

text \<open>
  A concrete instance on which the theorems below are exercised: events and fits are
  integers, a pore model's table is an integer bias, and the collaborators are simple
  arithmetic stand-ins. The stand-in trainer raises \<open>shift\<close> by one per round; its fit is the
  sum of the model biases minus the distance of the new \<open>shift\<close> from 3, so the fit rises
  for three rounds and then regresses.
\<close>

definition fx_params :: "int \<Rightarrow> int Pore_Model_Parameters" where
  "fx_params s = \<lparr>shift = s, scale = 1, drift = 0, var = 1, scale_sd = 1, var_sd = 1\<rparr>"

definition fx_train ::
  "int list list \<Rightarrow> int Pore_Model list \<Rightarrow> unit \<Rightarrow> int Pore_Model_Parameters
     \<Rightarrow> int Pore_Model_Parameters \<times> int \<times> bool" where
  "fx_train seqs pms t old =
     (old\<lparr>shift := shift old + 1\<rparr>, sum_list (map table pms) - \<bar>shift old + 1 - 3\<bar>, False)"

text \<open>A stand-in trainer that reports a singularity: it returns the old parameters, a
  fit of \<open>-10\<close>, and \<open>done\<close>.\<close>

definition fx_train_singular ::
  "int list list \<Rightarrow> int Pore_Model list \<Rightarrow> unit \<Rightarrow> int Pore_Model_Parameters
     \<Rightarrow> int Pore_Model_Parameters \<times> int \<times> bool" where
  "fx_train_singular seqs pms t old = (old, - 10, True)"

definition fx_rs :: "(int, int) Fast5_Summary" where
  "fx_rs = \<lparr>read_id = ''r1'', base_file_name = ''a.fast5'', have_ed_events = True,
            strand_bounds = (\<lambda>_. 0)(1 := 3, 2 := 3, 3 := 5),
            events = (\<lambda>_. [])(0 := [10, 20, 30], 1 := [40, 50]),
            params = (\<lambda>_. Map.empty)
              (0 := [''t'' \<mapsto> fx_params 0, ''u'' \<mapsto> fx_params 0],
               1 := [''c'' \<mapsto> fx_params 0, ''u'' \<mapsto> fx_params 0],
               2 := [''t+c'' \<mapsto> fx_params 0, ''t+u'' \<mapsto> fx_params 0,
                     ''u+c'' \<mapsto> fx_params 0, ''u+u'' \<mapsto> fx_params 0]),
            preferred_model = (\<lambda>_. [])\<rparr>"

definition fx_models :: "int Pore_Model_Dict" where
  "fx_models = [(''c'', \<lparr>strand = 1, table = 0\<rparr>), (''t'', \<lparr>strand = 0, table = 0\<rparr>),
                (''u'', \<lparr>strand = 2, table = 1\<rparr>)]"

definition fx_co :: "(int, int, int, unit) collab" where
  "fx_co = \<lparr>train_one_round = fx_train,
            pm_scale = (\<lambda>pm p. pm\<lparr>table := table pm + shift p\<rparr>),
            apply_drift_correction = (\<lambda>evs d. map (\<lambda>e. e - d) evs),
            viterbi = (\<lambda>pm t evs. (table pm + sum_list evs,
                                 replicate (length evs) (if table pm = 0 then CHR ''A'' else CHR ''C''))),
            load_events = (\<lambda>b rs. rs\<lparr>events := events fx_rs\<rparr>),
            drop_events = (\<lambda>rs. rs\<lparr>events := (\<lambda>_. [])\<rparr>),
            load_pore_model = (\<lambda>name. Inr (int (length name))),
            builtin_models = [(''c'', 1, 0), (''t'', 0, 0)],
            load_transitions = (\<lambda>name. Inr ()),
            compute_transitions = (\<lambda>p_skip p_stay p_cutoff. ()),
            summary_of = (\<lambda>f models b. fx_rs\<lparr>base_file_name := f,
                                                have_ed_events := (f \<noteq> ''empty.fast5'')\<rparr>),
            write_tsv = (\<lambda>rs. read_id rs),
            is_directory = (\<lambda>f. False),
            list_directory = (\<lambda>f. []),
            is_valid_file = (\<lambda>f. f \<noteq> []),
            file_lines = (\<lambda>f. [])\<rparr>"

definition fx_cfg :: "int opts" where
  "fx_cfg = \<lparr>stats_fn = [], min_read_len = 2, fasta_line_width = 2,
             scale_select_model_single_round = False, scale_strands_together = True,
             scale_min_fit_progress = 1, scale_max_rounds = 10, scale_num_events = 4,
             scale_only = False, accurate_scaling = False, pr_cutoff = 0, pr_skip = 0,
             pr_stay = 0, trans_fn = [], model_fofn = [], model_fn = [],
             input_fn = [''a.fast5'']\<rparr>"

text \<open>The read summary after round 0 (every \<open>shift\<close> is 1), two of the models, and the
  training event sequences of \<open>fx_rs\<close>.\<close>

definition fx_rs1 :: "(int, int) Fast5_Summary" where
  "fx_rs1 = fx_rs\<lparr>params := (\<lambda>_. Map.empty)
              (0 := [''t'' \<mapsto> fx_params 1, ''u'' \<mapsto> fx_params 1],
               1 := [''c'' \<mapsto> fx_params 1, ''u'' \<mapsto> fx_params 1],
               2 := [''t+c'' \<mapsto> fx_params 1, ''t+u'' \<mapsto> fx_params 1,
                     ''u+c'' \<mapsto> fx_params 1, ''u+u'' \<mapsto> fx_params 1])\<rparr>"

definition fx_pm_t :: "int Pore_Model" where
  "fx_pm_t = \<lparr>strand = 0, table = 0\<rparr>"

definition fx_pm_u :: "int Pore_Model" where
  "fx_pm_u = \<lparr>strand = 2, table = 1\<rparr>"

definition fx_tes :: "nat \<Rightarrow> int list list" where
  "fx_tes = (\<lambda>_. [])(0 := [[10], [30]], 1 := [[40], [50]])"

text \<open>Options naming one input file whose read has no detected events, options naming no
  input at all, and options giving the same model file for strands 0 and 1.\<close>

definition fx_cfg_empty :: "int opts" where
  "fx_cfg_empty = fx_cfg\<lparr>input_fn := [''empty.fast5'']\<rparr>"

definition fx_cfg_none :: "int opts" where
  "fx_cfg_none = fx_cfg\<lparr>input_fn := []\<rparr>"

definition fx_cfg_foo :: "int opts" where
  "fx_cfg_foo = fx_cfg\<lparr>model_fn := [''0:foo'', ''1:foo'']\<rparr>"

definition fx_models_foo :: "int Pore_Model_Dict" where
  "fx_models_foo = [(''foo'', \<lparr>strand = 1, table = 3\<rparr>)]"

text \<open>The state in which \<open>fx_rs\<close> is basecalled.\<close>

definition fx_bs :: "(int, int, int) basecall_state" where
  "fx_bs = \<lparr>shared_models = fx_models, read_summary = fx_rs, oss = []\<rparr>"

text \<open>The two shortlists of \<open>fx_rs\<close>.\<close>

definition fx_ml :: "nat \<Rightarrow> string list" where
  "fx_ml = (\<lambda>_. [])(0 := [''t'', ''u''], 1 := [''c'', ''u''])"

section \<open>Properties of the shortlist\<close>

lemma dict_count_iff: "dict_count d k \<longleftrightarrow> k \<in> fst ` set d"
  by (simp add: dict_count_def map_of_eq_None_iff)

lemma set_strand_models:
  "set (strand_models models st) =
     {n. \<exists>pm. (n, pm) \<in> set models \<and> (strand pm = st \<or> strand pm = 2)}"
  by (auto simp: strand_models_def image_iff)

lemma rescale_model_list_eq:
  "rescale_model_list cfg models rs =
     Inr ((\<lambda>_. [])(0 := shortlist_of cfg models rs 0, 1 := shortlist_of cfg models rs 1))"
  by (auto simp add: rescale_model_list_def shortlist_of_def ebind_def array_empty_def Let_def
      fun_eq_iff)

text \<open>
  Claim C4. For a strand \<open>st\<close> of a read with at least \<open>min_read_len\<close> events, the shortlist
  built by the rescaling pass and the one built by the basecalling pass are both the singleton
  of \<open>preferred_model[st]\<close> when that name is a key of the model dictionary, and otherwise
  the names of all loaded models whose strand tag is \<open>st\<close> or 2.
\<close>

theorem shortlist_both_passes:
  assumes "st < 2" and "enough_events cfg rs st"
  shows "\<exists>model_list. rescale_model_list cfg models rs = Inr model_list
       \<and> set (model_list st) =
           (if preferred_model rs st \<in> fst ` set models then {preferred_model rs st}
            else {n. \<exists>pm. (n, pm) \<in> set models \<and> (strand pm = st \<or> strand pm = 2)})
       \<and> set (basecall_model_sublist models rs st) =
           (if preferred_model rs st \<in> fst ` set models then {preferred_model rs st}
            else {n. \<exists>pm. (n, pm) \<in> set models \<and> (strand pm = st \<or> strand pm = 2)})"
proof -
  from assms(1) consider "st = 0" | "st = 1" by linarith
  then show ?thesis
    using assms(2)
    by cases (simp_all add: rescale_model_list_eq shortlist_of_def basecall_model_sublist_def
        dict_count_iff set_strand_models)
qed

theorem shortlist_both_passes_witness:
  "(0::nat) < 2 \<and> enough_events fx_cfg fx_rs 0
   \<and> (\<exists>model_list. rescale_model_list fx_cfg fx_models fx_rs = Inr model_list
        \<and> set (model_list 0) = {''t'', ''u''}
        \<and> set (basecall_model_sublist fx_models fx_rs 0) = {''t'', ''u''})"
proof -
  have e: "enough_events fx_cfg fx_rs 0"
    by (simp add: enough_events_def fx_cfg_def fx_rs_def)
  have s: "{n. \<exists>pm. (n, pm) \<in> set fx_models \<and> (strand pm = 0 \<or> strand pm = 2)} = {''t'', ''u''}"
    by (auto simp: fx_models_def)
  have p: "preferred_model fx_rs 0 \<notin> fst ` set fx_models"
    by (simp add: fx_rs_def fx_models_def)
  show ?thesis
    using shortlist_both_passes [of 0 fx_cfg fx_rs fx_models] e s p by simp
qed

section \<open>Properties of the training loop\<close>

declare converge_rounds.simps [simp del]

lemma next_round_same_result:
  assumes "next_round cfg tr rid st m_name (p, f, r, lg) (p', f', r', lg')"
  shows "converge_rounds cfg tr rid st m_name p f r lg
           = converge_rounds cfg tr rid st m_name p' f' r' lg'"
  using assms
  by (cases rule: next_round.cases)
    (auto simp add: converge_rounds.simps [of cfg tr rid st m_name p f r lg] Let_def)

lemma reach_same_result:
  assumes "(next_round cfg tr rid st m_name)\<^sup>*\<^sup>* s s'"
  shows "(case s of (p, f, r, lg) \<Rightarrow> converge_rounds cfg tr rid st m_name p f r lg)
       = (case s' of (p, f, r, lg) \<Rightarrow> converge_rounds cfg tr rid st m_name p f r lg)"
  using assms
proof (induction rule: rtranclp_induct)
  case base
  show ?case by simp
next
  case (step y z)
  obtain p f r lg where y: "y = (p, f, r, lg)" by (cases y) auto
  obtain p' f' r' lg' where z: "z = (p', f', r', lg')" by (cases z) auto
  from step y z show ?case by (simp add: next_round_same_result)
qed

lemma regressing_round:
  assumes "tr p = (p', f', False)" and "f' < f"
  shows "converge_rounds cfg tr rid st m_name p f r lg =
          (p, f, r, lg @ [Scaling_round rid st m_name p (Some f) p' f' r,
                          Scaling_regression rid st m_name p f p' f' r])"
  using assms by (simp add: converge_rounds.simps [of cfg tr rid st m_name p f r lg])

text \<open>A round that signals \<open>done\<close> ends the loop with what the trainer returned, whatever
  the two fits are: the fits are compared only after the test of \<open>done\<close>.\<close>

lemma done_round:
  assumes "tr p = (p', f', True)"
  shows "converge_rounds cfg tr rid st m_name p f r lg =
          (p', f', r, lg @ [Scaling_round rid st m_name p (Some f) p' f' r])"
  using assms by (simp add: converge_rounds.simps [of cfg tr rid st m_name p f r lg])

lemma word_less_succ: "r \<noteq> - 1 \<Longrightarrow> r < r + (1 :: unsigned)"
  by (metis inc_less_eq_triv_imp linorder_less_linear word_le_less_eq)

lemma reach_round_bounds:
  assumes "(next_round cfg tr rid st m_name)\<^sup>*\<^sup>* (p0, f0, 1, lg0) s"
  shows "case s of (p, f, r, lg) \<Rightarrow> 1 \<le> r \<and> (r = 1 \<or> r < scale_max_rounds cfg)"
  using assms
proof (induction rule: rtranclp_induct)
  case base
  show ?case by simp
next
  case (step y z)
  from step(2) show ?case
  proof (cases rule: next_round.cases)
    case (1 p p' f' f r lg)
    with step(3) have r: "1 \<le> r" and r': "r = 1 \<or> r < scale_max_rounds cfg" by simp_all
    from 1 have lt: "r + 1 < scale_max_rounds cfg" by (simp add: not_le)
    have "r \<noteq> - 1" using r' by auto
    then have "r < r + 1" by (rule word_less_succ)
    with r 1 lt show ?thesis by auto
  qed
qed

lemma converge_rounds_count:
  "r < scale_max_rounds cfg \<Longrightarrow>
   \<exists>new. snd (snd (snd (converge_rounds cfg tr rid st m_name p f r lg))) = lg @ new
        \<and> training_rounds st m_name new + unat r \<le> unat (scale_max_rounds cfg)"
proof (induction cfg tr rid st m_name p f r lg rule: converge_rounds.induct)
  case (1 cfg tr rid st m_name p f r lg)
  obtain p' f' d where tr: "tr p = (p', f', d)" by (cases "tr p") auto
  let ?l = "Scaling_round rid st m_name p (Some f) p' f' r"
  have one: "1 + unat r \<le> unat (scale_max_rounds cfg)"
    using "1.prems" by (simp add: word_less_nat_alt)
  show ?case
  proof (cases "d \<or> f' < f \<or> scale_max_rounds cfg \<le> r + 1
                 \<or> (1 < r + 1 \<and> f' < f + scale_min_fit_progress cfg)")
    case True
    then show ?thesis
      using tr one
      by (auto simp add: converge_rounds.simps [of cfg tr rid st m_name p f r lg] Let_def
          training_rounds_def)
  next
    case False
    then have lt: "r + 1 < scale_max_rounds cfg" by (simp add: not_le)
    have "r \<noteq> - 1" using "1.prems" by auto
    then have "r + 1 \<noteq> 0" by (metis add_diff_cancel_right' diff_0)
    then have suc: "unat (r + 1) = unat r + 1"
      using unatSuc [of r] by (simp add: add.commute)
    from "1.IH" [OF tr [symmetric] refl refl _ _ _ lt] False
    obtain new where new: "snd (snd (snd (converge_rounds cfg tr rid st m_name p' f' (r + 1)
                                (lg @ [?l])))) = (lg @ [?l]) @ new"
        and cnt: "training_rounds st m_name new + unat (r + 1) \<le> unat (scale_max_rounds cfg)"
      by auto
    have "snd (snd (snd (converge_rounds cfg tr rid st m_name p f r lg))) = lg @ (?l # new)"
      using tr False new
      by (auto simp add: converge_rounds.simps [of cfg tr rid st m_name p f r lg] Let_def)
    moreover have "training_rounds st m_name (?l # new) + unat r \<le> unat (scale_max_rounds cfg)"
      using cnt suc by (simp add: training_rounds_def)
    ultimately show ?thesis by blast
  qed
qed

lemma separate_converge_result:
  assumes "map_at (params rs st) m_name = Inr p0" and "dict_at models m_name = Inr pm"
    and "converge_rounds cfg (train_one_round co seqs [pm] transitions) (read_id rs) st m_name
           p0 (fit_of model_fit m_name) 1 lg0 = (p, f, r, lg)"
  shows "separate_converge cfg co models transitions seqs st model_fit m_name (rs, lg0) =
           Inr (rs\<lparr>params := (params rs)(st := (params rs st)(m_name \<mapsto> p))\<rparr>,
                lg @ [Scaling_result (read_id rs) st m_name p f r])"
  using assms by (simp add: separate_converge_def ebind_def)

lemma together_converge_result:
  assumes "dict_at models m0 = Inr pm0" and "dict_at models m1 = Inr pm1"
    and "map_at (params rs 2) (joint_name m0 m1) = Inr p0"
    and "converge_rounds cfg
           (train_one_round co (tes 0 @ tes 1) (model_ptrs tes pm0 pm1) transitions)
           (read_id rs) 2 (joint_name m0 m1) p0 (fit_of model_fit (m0, m1)) 1 lg0 = (p, f, r, lg)"
  shows "together_converge cfg co models transitions tes model_fit m0 m1 (rs, lg0) =
           Inr (rs\<lparr>params := (params rs)
                       (2 := (params rs 2)(joint_name m0 m1 \<mapsto> p),
                        0 := (params rs 0)(m0 \<mapsto> p),
                        1 := (params rs 1)(m1 \<mapsto> p))\<rparr>,
                lg @ [Scaling_result (read_id rs) 2 (joint_name m0 m1) p f r])"
  using assms by (simp add: together_converge_def ebind_def)

text \<open>
  Claim C2, as the code has it. Whenever a round of the convergence loop that does not signal
  \<open>done\<close> yields a fit below the previous one (\<open>crt_fit < old_fit\<close>), the loop ends at once
  with the parameters and the fit it had before that round, after logging the round and a
  \<open>scaling_regression\<close> line. The run goes on normally (the result is \<open>Inr\<close>): what is then
  written to \<open>params[st]\<close> (and, when the strands are scaled together, to \<open>params[2]\<close>,
  \<open>params[0]\<close> and \<open>params[1]\<close>) are the parameters from before the regressing round. The
  round in question is any round reached from the start of the loop through rounds that
  continued.
\<close>

theorem regression_reverts:
  assumes reach: "(next_round cfg tr rid st m_name)\<^sup>*\<^sup>* (p0, f0, r0, lg0) (p, f, r, lg)"
    and tr: "tr p = (p', f', False)" and reg: "f' < f"
  shows "converge_rounds cfg tr rid st m_name p0 f0 r0 lg0 =
           (p, f, r, lg @ [Scaling_round rid st m_name p (Some f) p' f' r,
                           Scaling_regression rid st m_name p f p' f' r])
       \<and> (tr = train_one_round co seqs [pm] transitions \<and> rid = read_id rs
            \<and> map_at (params rs st) m_name = Inr p0 \<and> dict_at models m_name = Inr pm
            \<and> f0 = fit_of model_fit m_name \<and> r0 = 1
          \<longrightarrow> separate_converge cfg co models transitions seqs st model_fit m_name (rs, lg0) =
                Inr (rs\<lparr>params := (params rs)(st := (params rs st)(m_name \<mapsto> p))\<rparr>,
                     lg @ [Scaling_round rid st m_name p (Some f) p' f' r,
                           Scaling_regression rid st m_name p f p' f' r,
                           Scaling_result rid st m_name p f r]))
       \<and> (tr = train_one_round co (tes 0 @ tes 1) (model_ptrs tes pm0 pm1) transitions
            \<and> rid = read_id rs \<and> st = 2 \<and> m_name = joint_name m0 m1
            \<and> dict_at models m0 = Inr pm0 \<and> dict_at models m1 = Inr pm1
            \<and> map_at (params rs 2) (joint_name m0 m1) = Inr p0
            \<and> f0 = fit_of joint_fit (m0, m1) \<and> r0 = 1
          \<longrightarrow> together_converge cfg co models transitions tes joint_fit m0 m1 (rs, lg0) =
                Inr (rs\<lparr>params := (params rs)
                            (2 := (params rs 2)(joint_name m0 m1 \<mapsto> p),
                             0 := (params rs 0)(m0 \<mapsto> p),
                             1 := (params rs 1)(m1 \<mapsto> p))\<rparr>,
                     lg @ [Scaling_round rid st m_name p (Some f) p' f' r,
                           Scaling_regression rid st m_name p f p' f' r,
                           Scaling_result rid st m_name p f r]))"
proof -
  have loop: "converge_rounds cfg tr rid st m_name p0 f0 r0 lg0 =
           (p, f, r, lg @ [Scaling_round rid st m_name p (Some f) p' f' r,
                           Scaling_regression rid st m_name p f p' f' r])"
    using reach_same_result [OF reach]
      regressing_round [of tr p p' f' f cfg rid st m_name r lg, OF tr reg] by simp
  show ?thesis
  proof (intro conjI impI)
    show "converge_rounds cfg tr rid st m_name p0 f0 r0 lg0 =
           (p, f, r, lg @ [Scaling_round rid st m_name p (Some f) p' f' r,
                           Scaling_regression rid st m_name p f p' f' r])"
      by (rule loop)
  next
    assume h: "tr = train_one_round co seqs [pm] transitions \<and> rid = read_id rs
            \<and> map_at (params rs st) m_name = Inr p0 \<and> dict_at models m_name = Inr pm
            \<and> f0 = fit_of model_fit m_name \<and> r0 = 1"
    then show "separate_converge cfg co models transitions seqs st model_fit m_name (rs, lg0) =
                Inr (rs\<lparr>params := (params rs)(st := (params rs st)(m_name \<mapsto> p))\<rparr>,
                     lg @ [Scaling_round rid st m_name p (Some f) p' f' r,
                           Scaling_regression rid st m_name p f p' f' r,
                           Scaling_result rid st m_name p f r])"
      using loop
        separate_converge_result [of rs st m_name p0 models pm cfg co seqs transitions model_fit
          lg0 p f r "lg @ [Scaling_round rid st m_name p (Some f) p' f' r,
                           Scaling_regression rid st m_name p f p' f' r]"]
      by simp
  next
    assume h: "tr = train_one_round co (tes 0 @ tes 1) (model_ptrs tes pm0 pm1) transitions
            \<and> rid = read_id rs \<and> st = 2 \<and> m_name = joint_name m0 m1
            \<and> dict_at models m0 = Inr pm0 \<and> dict_at models m1 = Inr pm1
            \<and> map_at (params rs 2) (joint_name m0 m1) = Inr p0
            \<and> f0 = fit_of joint_fit (m0, m1) \<and> r0 = 1"
    then show "together_converge cfg co models transitions tes joint_fit m0 m1 (rs, lg0) =
                Inr (rs\<lparr>params := (params rs)
                            (2 := (params rs 2)(joint_name m0 m1 \<mapsto> p),
                             0 := (params rs 0)(m0 \<mapsto> p),
                             1 := (params rs 1)(m1 \<mapsto> p))\<rparr>,
                     lg @ [Scaling_round rid st m_name p (Some f) p' f' r,
                           Scaling_regression rid st m_name p f p' f' r,
                           Scaling_result rid st m_name p f r])"
      using loop
        together_converge_result [of models m0 pm0 m1 pm1 rs p0 cfg co tes transitions joint_fit
          lg0 p f r "lg @ [Scaling_round rid st m_name p (Some f) p' f' r,
                           Scaling_regression rid st m_name p f p' f' r]"]
      by simp
  qed
qed

lemma fx_reach_t:
  "(next_round fx_cfg (fx_train [[10], [30]] [fx_pm_t] ()) ''r1'' 0 ''t'')\<^sup>*\<^sup>*
     (fx_params 1, - 2, 1, [])
     (fx_params 3, 0, 3,
      [Scaling_round ''r1'' 0 ''t'' (fx_params 1) (Some (- 2)) (fx_params 2) (- 1) 1,
       Scaling_round ''r1'' 0 ''t'' (fx_params 2) (Some (- 1)) (fx_params 3) 0 2])"
proof -
  have a: "next_round fx_cfg (fx_train [[10], [30]] [fx_pm_t] ()) ''r1'' 0 ''t''
     (fx_params 1, - 2, 1, [])
     (fx_params 2, - 1, 2,
      [Scaling_round ''r1'' 0 ''t'' (fx_params 1) (Some (- 2)) (fx_params 2) (- 1) 1])"
    by (simp add: next_round.simps fx_cfg_def fx_train_def fx_params_def fx_pm_t_def)
  have b: "next_round fx_cfg (fx_train [[10], [30]] [fx_pm_t] ()) ''r1'' 0 ''t''
     (fx_params 2, - 1, 2,
      [Scaling_round ''r1'' 0 ''t'' (fx_params 1) (Some (- 2)) (fx_params 2) (- 1) 1])
     (fx_params 3, 0, 3,
      [Scaling_round ''r1'' 0 ''t'' (fx_params 1) (Some (- 2)) (fx_params 2) (- 1) 1,
       Scaling_round ''r1'' 0 ''t'' (fx_params 2) (Some (- 1)) (fx_params 3) 0 2])"
    by (simp add: next_round.simps fx_cfg_def fx_train_def fx_params_def fx_pm_t_def)
  from a b show ?thesis by (meson rtranclp.rtrancl_into_rtrancl rtranclp.rtrancl_refl)
qed

lemma fx_tes_eq: "train_event_seqs fx_cfg fx_rs = fx_tes"
  by (simp add: train_event_seqs_def fx_tes_def enough_events_def fx_cfg_def fx_rs_def Let_def)

lemma fx_reach_uu:
  "(next_round fx_cfg (fx_train (fx_tes 0 @ fx_tes 1) (model_ptrs fx_tes fx_pm_u fx_pm_u) ())
       ''r1'' 2 ''u+u'')\<^sup>*\<^sup>*
     (fx_params 1, 2, 1, [])
     (fx_params 3, 4, 3,
      [Scaling_round ''r1'' 2 ''u+u'' (fx_params 1) (Some 2) (fx_params 2) 3 1,
       Scaling_round ''r1'' 2 ''u+u'' (fx_params 2) (Some 3) (fx_params 3) 4 2])"
proof -
  have a: "next_round fx_cfg
     (fx_train (fx_tes 0 @ fx_tes 1) (model_ptrs fx_tes fx_pm_u fx_pm_u) ()) ''r1'' 2 ''u+u''
     (fx_params 1, 2, 1, [])
     (fx_params 2, 3, 2,
      [Scaling_round ''r1'' 2 ''u+u'' (fx_params 1) (Some 2) (fx_params 2) 3 1])"
    by (simp add: next_round.simps fx_cfg_def fx_train_def fx_params_def fx_pm_u_def
        model_ptrs_def fx_tes_def)
  have b: "next_round fx_cfg
     (fx_train (fx_tes 0 @ fx_tes 1) (model_ptrs fx_tes fx_pm_u fx_pm_u) ()) ''r1'' 2 ''u+u''
     (fx_params 2, 3, 2,
      [Scaling_round ''r1'' 2 ''u+u'' (fx_params 1) (Some 2) (fx_params 2) 3 1])
     (fx_params 3, 4, 3,
      [Scaling_round ''r1'' 2 ''u+u'' (fx_params 1) (Some 2) (fx_params 2) 3 1,
       Scaling_round ''r1'' 2 ''u+u'' (fx_params 2) (Some 3) (fx_params 3) 4 2])"
    by (simp add: next_round.simps fx_cfg_def fx_train_def fx_params_def fx_pm_u_def
        model_ptrs_def fx_tes_def)
  from a b show ?thesis by (meson rtranclp.rtrancl_into_rtrancl rtranclp.rtrancl_refl)
qed

theorem regression_reverts_witness:
  "separate_converge fx_cfg fx_co fx_models () [[10], [30]] 0 [(''t'', - 2), (''u'', - 1)] ''t''
      (fx_rs1, []) =
     Inr (fx_rs1\<lparr>params := (params fx_rs1)(0 := (params fx_rs1 0)(''t'' \<mapsto> fx_params 3))\<rparr>,
          [Scaling_round ''r1'' 0 ''t'' (fx_params 1) (Some (- 2)) (fx_params 2) (- 1) 1,
           Scaling_round ''r1'' 0 ''t'' (fx_params 2) (Some (- 1)) (fx_params 3) 0 2,
           Scaling_round ''r1'' 0 ''t'' (fx_params 3) (Some 0) (fx_params 4) (- 1) 3,
           Scaling_regression ''r1'' 0 ''t'' (fx_params 3) 0 (fx_params 4) (- 1) 3,
           Scaling_result ''r1'' 0 ''t'' (fx_params 3) 0 3])
   \<and> together_converge fx_cfg fx_co fx_models () fx_tes [((''u'', ''u''), 2)] ''u'' ''u''
      (fx_rs1, []) =
     Inr (fx_rs1\<lparr>params := (params fx_rs1)
                 (2 := (params fx_rs1 2)(''u+u'' \<mapsto> fx_params 3),
                  0 := (params fx_rs1 0)(''u'' \<mapsto> fx_params 3),
                  1 := (params fx_rs1 1)(''u'' \<mapsto> fx_params 3))\<rparr>,
          [Scaling_round ''r1'' 2 ''u+u'' (fx_params 1) (Some 2) (fx_params 2) 3 1,
           Scaling_round ''r1'' 2 ''u+u'' (fx_params 2) (Some 3) (fx_params 3) 4 2,
           Scaling_round ''r1'' 2 ''u+u'' (fx_params 3) (Some 4) (fx_params 4) 3 3,
           Scaling_regression ''r1'' 2 ''u+u'' (fx_params 3) 4 (fx_params 4) 3 3,
           Scaling_result ''r1'' 2 ''u+u'' (fx_params 3) 4 3])"
proof -
  have tr: "fx_train [[10], [30]] [fx_pm_t] () (fx_params 3) = (fx_params 4, - 1, False)"
    by (simp add: fx_train_def fx_params_def fx_pm_t_def)
  have reg: "(- 1 :: int) < 0" by simp
  have h: "fx_train [[10], [30]] [fx_pm_t] () = train_one_round fx_co [[10], [30]] [fx_pm_t] ()
         \<and> ''r1'' = read_id fx_rs1
         \<and> map_at (params fx_rs1 0) ''t'' = Inr (fx_params 1)
         \<and> dict_at fx_models ''t'' = Inr fx_pm_t
         \<and> (- 2 :: int) = fit_of [(''t'', - 2), (''u'', - 1)] ''t'' \<and> (1 :: unsigned) = 1"
    by (simp add: fx_co_def fx_rs1_def fx_rs_def map_at_def dict_at_def fx_models_def
        fx_pm_t_def fit_of_def)
  have tr2: "fx_train (fx_tes 0 @ fx_tes 1) (model_ptrs fx_tes fx_pm_u fx_pm_u) () (fx_params 3)
               = (fx_params 4, 3, False)"
    by (simp add: fx_train_def fx_params_def fx_pm_u_def model_ptrs_def fx_tes_def)
  have reg2: "(3 :: int) < 4" by simp
  have h2: "fx_train (fx_tes 0 @ fx_tes 1) (model_ptrs fx_tes fx_pm_u fx_pm_u) ()
             = train_one_round fx_co (fx_tes 0 @ fx_tes 1) (model_ptrs fx_tes fx_pm_u fx_pm_u) ()
         \<and> ''r1'' = read_id fx_rs1 \<and> (2 :: nat) = 2 \<and> ''u+u'' = joint_name ''u'' ''u''
         \<and> dict_at fx_models ''u'' = Inr fx_pm_u \<and> dict_at fx_models ''u'' = Inr fx_pm_u
         \<and> map_at (params fx_rs1 2) (joint_name ''u'' ''u'') = Inr (fx_params 1)
         \<and> (2 :: int) = fit_of [((''u'', ''u''), 2)] (''u'', ''u'') \<and> (1 :: unsigned) = 1"
    by (simp add: fx_co_def fx_rs1_def fx_rs_def map_at_def dict_at_def fx_models_def
        fx_pm_u_def fit_of_def joint_name_def)
  note r1 = regression_reverts [OF fx_reach_t tr reg,
        where co = fx_co and seqs = "[[10], [30]]" and pm = fx_pm_t and transitions = "()"
          and rs = fx_rs1 and models = fx_models and model_fit = "[(''t'', - 2), (''u'', - 1)]"]
  note r2 = regression_reverts [OF fx_reach_uu tr2 reg2,
        where co = fx_co and tes = fx_tes and ?pm0.0 = fx_pm_u and ?pm1.0 = fx_pm_u
          and transitions = "()" and rs = fx_rs1 and models = fx_models
          and ?m0.0 = "''u''" and ?m1.0 = "''u''" and joint_fit = "[((''u'', ''u''), 2)]"]
  have j: "joint_name ''u'' ''u'' = ''u+u''" by (simp add: joint_name_def)
  have a: "separate_converge fx_cfg fx_co fx_models () [[10], [30]] 0
             [(''t'', - 2), (''u'', - 1)] ''t'' (fx_rs1, []) =
     Inr (fx_rs1\<lparr>params := (params fx_rs1)(0 := (params fx_rs1 0)(''t'' \<mapsto> fx_params 3))\<rparr>,
          [Scaling_round ''r1'' 0 ''t'' (fx_params 1) (Some (- 2)) (fx_params 2) (- 1) 1,
           Scaling_round ''r1'' 0 ''t'' (fx_params 2) (Some (- 1)) (fx_params 3) 0 2]
            @ [Scaling_round ''r1'' 0 ''t'' (fx_params 3) (Some 0) (fx_params 4) (- 1) 3,
           Scaling_regression ''r1'' 0 ''t'' (fx_params 3) 0 (fx_params 4) (- 1) 3,
           Scaling_result ''r1'' 0 ''t'' (fx_params 3) 0 3])"
    using r1 h by blast
  have b: "together_converge fx_cfg fx_co fx_models () fx_tes [((''u'', ''u''), 2)] ''u'' ''u''
      (fx_rs1, []) =
     Inr (fx_rs1\<lparr>params := (params fx_rs1)
                 (2 := (params fx_rs1 2)(joint_name ''u'' ''u'' \<mapsto> fx_params 3),
                  0 := (params fx_rs1 0)(''u'' \<mapsto> fx_params 3),
                  1 := (params fx_rs1 1)(''u'' \<mapsto> fx_params 3))\<rparr>,
          [Scaling_round ''r1'' 2 ''u+u'' (fx_params 1) (Some 2) (fx_params 2) 3 1,
           Scaling_round ''r1'' 2 ''u+u'' (fx_params 2) (Some 3) (fx_params 3) 4 2]
            @ [Scaling_round ''r1'' 2 ''u+u'' (fx_params 3) (Some 4) (fx_params 4) 3 3,
           Scaling_regression ''r1'' 2 ''u+u'' (fx_params 3) 4 (fx_params 4) 3 3,
           Scaling_result ''r1'' 2 ''u+u'' (fx_params 3) 4 3])"
    using r2 h2 by blast
  show ?thesis
    using a b unfolding j by simp
qed

text \<open>
  The claim as stated fails for a round that signals \<open>done\<close>: \<open>done\<close> is tested before the
  fits are compared, so with a fit of \<open>-10\<close> after a fit of \<open>-2\<close> the loop ends with the fit
  \<open>-10\<close> the trainer returned, not the previous one, and logs no \<open>scaling_regression\<close> line.
\<close>

theorem regression_reverts_counterexample:
  "fx_train_singular [[10], [30]] [fx_pm_t] () (fx_params 1) = (fx_params 1, - 10, True)
   \<and> (- 10 :: int) < - 2
   \<and> converge_rounds fx_cfg (fx_train_singular [[10], [30]] [fx_pm_t] ()) ''r1'' 0 ''t''
        (fx_params 1) (- 2) 1 []
      = (fx_params 1, - 10, 1,
         [Scaling_round ''r1'' 0 ''t'' (fx_params 1) (Some (- 2)) (fx_params 1) (- 10) 1])"
  by (simp add: converge_rounds.simps fx_train_singular_def)

text \<open>
  Claim C3, as the code has it. A round of the loop that is neither \<open>done\<close> nor a regression
  ends the loop when the incremented round counter has reached \<open>scale_max_rounds\<close> or the fit
  gained less than \<open>scale_min_fit_progress\<close>, and is otherwise followed by another
  \<open>train_one_round\<close>. The counter starts at 1 and is incremented before the test, so the guard
  \<open>round > 1\<close> holds at every test, from the first round after round 0 on. When
  \<open>scale_max_rounds\<close> is at least 2, round 0 and the rounds of the loop together are at most
  \<open>scale_max_rounds\<close> training rounds.
\<close>

theorem convergence_stop_rule:
  assumes reach: "(next_round cfg tr rid st m_name)\<^sup>*\<^sup>* (p0, f0, 1, lg0) (p, f, r, lg)"
    and tr: "tr p = (p', f', False)" and noreg: "\<not> f' < f"
  shows "converge_rounds cfg tr rid st m_name p0 f0 1 lg0 =
           (if scale_max_rounds cfg \<le> r + 1 \<or> f' < f + scale_min_fit_progress cfg
            then (p', f', r + 1, lg @ [Scaling_round rid st m_name p (Some f) p' f' r])
            else converge_rounds cfg tr rid st m_name p' f' (r + 1)
                   (lg @ [Scaling_round rid st m_name p (Some f) p' f' r]))
       \<and> 1 < r + 1
       \<and> (2 \<le> scale_max_rounds cfg \<longrightarrow>
            (\<exists>new. snd (snd (snd (converge_rounds cfg tr rid st m_name p0 f0 1 lg0))) = lg0 @ new
                 \<and> 1 + training_rounds st m_name new \<le> unat (scale_max_rounds cfg)))"
proof -
  from reach_round_bounds [OF reach]
  have r: "1 \<le> r" and r': "r = 1 \<or> r < scale_max_rounds cfg" by simp_all
  have "r \<noteq> - 1" using r' by auto
  then have "r < r + 1" by (rule word_less_succ)
  with r have gt: "1 < r + 1" by simp
  have "converge_rounds cfg tr rid st m_name p0 f0 1 lg0
          = converge_rounds cfg tr rid st m_name p f r lg"
    using reach_same_result [OF reach] by simp
  then have stop: "converge_rounds cfg tr rid st m_name p0 f0 1 lg0 =
           (if scale_max_rounds cfg \<le> r + 1 \<or> f' < f + scale_min_fit_progress cfg
            then (p', f', r + 1, lg @ [Scaling_round rid st m_name p (Some f) p' f' r])
            else converge_rounds cfg tr rid st m_name p' f' (r + 1)
                   (lg @ [Scaling_round rid st m_name p (Some f) p' f' r]))"
    using tr noreg gt
    by (simp add: converge_rounds.simps [of cfg tr rid st m_name p f r lg] Let_def)
  have cnt: "\<exists>new. snd (snd (snd (converge_rounds cfg tr rid st m_name p0 f0 1 lg0))) = lg0 @ new
                 \<and> 1 + training_rounds st m_name new \<le> unat (scale_max_rounds cfg)"
    if "2 \<le> scale_max_rounds cfg"
  proof -
    from that have "1 < scale_max_rounds cfg" by (simp add: word_le_nat_alt word_less_nat_alt)
    from converge_rounds_count [OF this, of tr rid st m_name p0 f0 lg0]
    show ?thesis by (simp add: add.commute)
  qed
  from stop gt cnt show ?thesis by blast
qed

theorem convergence_stop_rule_witness:
  "converge_rounds fx_cfg (fx_train [[10], [30]] [fx_pm_t] ()) ''r1'' 0 ''t'' (fx_params 1) (- 2) 1 []
     = converge_rounds fx_cfg (fx_train [[10], [30]] [fx_pm_t] ()) ''r1'' 0 ''t'' (fx_params 2) (- 1)
         (1 + 1) ([] @ [Scaling_round ''r1'' 0 ''t'' (fx_params 1) (Some (- 2)) (fx_params 2) (- 1) 1])
   \<and> 2 \<le> scale_max_rounds fx_cfg
   \<and> (\<exists>new. snd (snd (snd (converge_rounds fx_cfg (fx_train [[10], [30]] [fx_pm_t] ()) ''r1'' 0 ''t''
                             (fx_params 1) (- 2) 1 []))) = [] @ new
          \<and> 1 + training_rounds 0 ''t'' new \<le> unat (scale_max_rounds fx_cfg))"
proof -
  have tr: "fx_train [[10], [30]] [fx_pm_t] () (fx_params 1) = (fx_params 2, - 1, False)"
    by (simp add: fx_train_def fx_params_def fx_pm_t_def)
  have noreg: "\<not> (- 1 :: int) < - 2" by simp
  have m: "2 \<le> scale_max_rounds fx_cfg" by (simp add: fx_cfg_def)
  have c: "\<not> (scale_max_rounds fx_cfg \<le> 1 + 1 \<or> (- 1 :: int) < - 2 + scale_min_fit_progress fx_cfg)"
    by (simp add: fx_cfg_def)
  have reach: "(next_round fx_cfg (fx_train [[10], [30]] [fx_pm_t] ()) ''r1'' 0 ''t'')\<^sup>*\<^sup>*
                 (fx_params 1, - 2, 1, []) (fx_params 1, - 2, 1, [])"
    by simp
  note w = convergence_stop_rule [OF reach tr noreg]
  from w c have "converge_rounds fx_cfg (fx_train [[10], [30]] [fx_pm_t] ()) ''r1'' 0 ''t''
        (fx_params 1) (- 2) 1 []
     = converge_rounds fx_cfg (fx_train [[10], [30]] [fx_pm_t] ()) ''r1'' 0 ''t'' (fx_params 2) (- 1)
         (1 + 1) ([] @ [Scaling_round ''r1'' 0 ''t'' (fx_params 1) (Some (- 2)) (fx_params 2) (- 1) 1])"
    by (simp only: if_False)
  with w m show ?thesis by blast
qed

text \<open>
  The claim as stated fails twice. With \<open>scale_max_rounds = 1\<close> the model \<open>t\<close> of strand 0 is
  trained twice (round 0 and one round of the loop), more than \<open>scale_max_rounds\<close>. With
  \<open>scale_max_rounds = 10\<close> and a fit progress of 1 below \<open>scale_min_fit_progress = 5\<close>, the
  loop ends after its first round, with the counter at 2: the progress rule does not wait for
  a second round after round 0.
\<close>

theorem convergence_stop_rule_counterexample:
  "map_sum id (training_rounds 0 ''t'' \<circ> snd)
     (rescale_body (fx_cfg\<lparr>scale_strands_together := False, scale_max_rounds := 1\<rparr>)
        fx_co fx_models () (fx_rs, [])) = Inr 2
   \<and> unat (scale_max_rounds (fx_cfg\<lparr>scale_strands_together := False, scale_max_rounds := 1\<rparr>)) = 1
   \<and> converge_rounds (fx_cfg\<lparr>scale_min_fit_progress := 5\<rparr>)
        (fx_train [[10], [30]] [fx_pm_t] ()) ''r1'' 0 ''t'' (fx_params 1) (- 2) 1 []
      = (fx_params 2, - 1, 2,
         [Scaling_round ''r1'' 0 ''t'' (fx_params 1) (Some (- 2)) (fx_params 2) (- 1) 1])
   \<and> scale_max_rounds (fx_cfg\<lparr>scale_min_fit_progress := 5\<rparr>) = 10"
proof -
  have a: "map_sum id (training_rounds 0 ''t'' \<circ> snd)
     (rescale_body (fx_cfg\<lparr>scale_strands_together := False, scale_max_rounds := 1\<rparr>)
        fx_co fx_models () (fx_rs, [])) = Inr 2"
    by code_simp
  have b: "converge_rounds (fx_cfg\<lparr>scale_min_fit_progress := 5\<rparr>)
        (fx_train [[10], [30]] [fx_pm_t] ()) ''r1'' 0 ''t'' (fx_params 1) (- 2) 1 []
      = (fx_params 2, - 1, 2,
         [Scaling_round ''r1'' 0 ''t'' (fx_params 1) (Some (- 2)) (fx_params 2) (- 1) 1])"
    by (simp add: converge_rounds.simps fx_cfg_def fx_train_def fx_params_def fx_pm_t_def)
  from a b show ?thesis by (simp add: fx_cfg_def)
qed

section \<open>Properties of scaling the strands together\<close>

lemma ebind_Inr_iff: "ebind m f = Inr y \<longleftrightarrow> (\<exists>v. m = Inr v \<and> f v = Inr y)"
  by (cases m) (simp_all add: ebind_def)

lemma efold_invariant:
  assumes "efold f xs s = Inr s'" and "P s"
    and "\<And>x s s'. x \<in> set xs \<Longrightarrow> P s \<Longrightarrow> f x s = Inr s' \<Longrightarrow> P s'"
  shows "P s'"
  using assms
proof (induction xs arbitrary: s)
  case Nil
  then show ?case by simp
next
  case (Cons x xs)
  from Cons.prems(1) obtain s1 where s1: "f x s = Inr s1" and rest: "efold f xs s1 = Inr s'"
    by (auto simp: ebind_Inr_iff)
  have "P s1" using Cons.prems(2) s1 Cons.prems(3) [of x s s1] by simp
  then show ?case
  proof (rule Cons.IH [OF rest])
    fix y t t' assume "y \<in> set xs" "P t" "f y t = Inr t'"
    then show "P t'" using Cons.prems(3) [of y t t'] by simp
  qed
qed

lemma efold_total:
  assumes "P s"
    and "\<And>x s. x \<in> set xs \<Longrightarrow> P s \<Longrightarrow> \<exists>s'. f x s = Inr s' \<and> P s'"
  shows "\<exists>s'. efold f xs s = Inr s' \<and> P s'"
  using assms
proof (induction xs arbitrary: s)
  case Nil
  then show ?case by simp
next
  case (Cons x xs)
  from Cons.prems obtain s1 where s1: "f x s = Inr s1" and p1: "P s1" by force
  from Cons.IH [OF p1] Cons.prems(2) obtain s' where "efold f xs s1 = Inr s'" and "P s'"
    by force
  then show ?case using s1 by (auto simp: ebind_def)
qed

lemma keys_dict_set: "fst ` set (dict_set k v d) = insert k (fst ` set d)"
proof (induction d)
  case Nil
  show ?case by simp
next
  case (Cons kv d)
  obtain k' v' where kv: "kv = (k', v')" by (cases kv)
  show ?case unfolding kv using Cons by (simp add: insert_commute)
qed

lemma max_of_fold:
  fixes f :: "'a \<Rightarrow> 'b::linorder"
  shows "fold (\<lambda>y best. if f best < f y then y else best) xs x \<in> set (x # xs)
       \<and> (\<forall>y \<in> set (x # xs). f y \<le> f (fold (\<lambda>y best. if f best < f y then y else best) xs x))"
proof (induction xs arbitrary: x)
  case Nil
  show ?case by simp
next
  case (Cons a xs)
  show ?case
  proof (cases "f x < f a")
    case True
    with Cons [of a] show ?thesis by (auto intro: order.trans less_imp_le)
  next
    case False
    with Cons [of x] show ?thesis by (auto intro: order.trans simp: not_less)
  qed
qed

lemma max_of_Some:
  fixes f :: "'a \<Rightarrow> 'b::linorder"
  assumes "max_of f xs = Some b"
  shows "b \<in> set xs \<and> (\<forall>y \<in> set xs. f y \<le> f b)"
proof (cases xs)
  case Nil
  with assms show ?thesis by simp
next
  case (Cons x xs')
  with assms max_of_fold [of f xs' x] show ?thesis by auto
qed

lemma max_of_nonempty: "xs \<noteq> [] \<Longrightarrow> \<exists>b. max_of f xs = Some b"
  by (cases xs) simp_all

lemma ebind_Inr_right: "ebind m Inr = m"
  by (cases m) (simp_all add: ebind_def)

lemma strand_models_keys: "set (strand_models models st) \<subseteq> fst ` set models"
  by (auto simp: strand_models_def)

lemma shortlist_of_keys: "set (shortlist_of cfg models rs st) \<subseteq> fst ` set models"
  using strand_models_keys [of models st]
  by (auto simp: shortlist_of_def dict_count_iff)

lemma dict_at_key: "k \<in> fst ` set d \<Longrightarrow> \<exists>v. dict_at d k = Inr v"
  by (cases "map_of d k") (auto simp: dict_at_def map_of_eq_None_iff)

lemma ebind_InrE:
  assumes "ebind m f = Inr y"
  obtains v where "m = Inr v" and "f v = Inr y"
  using assms by (auto simp: ebind_Inr_iff)

lemma together_round0_step:
  assumes "together_round0 co models transitions tes m0 m1 s = Inr s'"
  shows "fst ` set (fst (snd s')) = insert (m0, m1) (fst ` set (fst (snd s)))
       \<and> dom (params (fst s') 2) = dom (params (fst s) 2)
       \<and> preferred_model (fst s') = preferred_model (fst s)
       \<and> read_id (fst s') = read_id (fst s)"
proof -
  obtain rs mf lg where s: "s = (rs, mf, lg)" by (cases s) auto
  from assms show ?thesis
    unfolding s together_round0_def prod.case
  proof (elim ebind_InrE)
    fix pm0 pm1 old
    assume old: "map_at (params rs 2) (joint_name m0 m1) = Inr old"
      and s': "(case train_one_round co (tes 0 @ tes 1) (model_ptrs tes pm0 pm1) transitions old of
               (crt_pm_params, fit, done) \<Rightarrow>
                 Inr (rs\<lparr>params := (params rs)
                        (2 := (params rs 2)(joint_name m0 m1 \<mapsto> crt_pm_params))\<rparr>,
                      dict_set (m0, m1) fit mf,
                      lg @ [Scaling_round (read_id rs) 2 (joint_name m0 m1)
                              old None crt_pm_params fit 0])) = Inr s'"
    obtain crt fit d
      where t: "train_one_round co (tes 0 @ tes 1) (model_ptrs tes pm0 pm1) transitions old
                  = (crt, fit, d)"
      by (cases "train_one_round co (tes 0 @ tes 1) (model_ptrs tes pm0 pm1) transitions old")
        auto
    from old have k: "joint_name m0 m1 \<in> dom (params rs 2)"
      by (auto simp: map_at_def split: option.splits)
    from s' t have "s' = (rs\<lparr>params := (params rs)
                          (2 := (params rs 2)(joint_name m0 m1 \<mapsto> crt))\<rparr>,
                        dict_set (m0, m1) fit mf,
                        lg @ [Scaling_round (read_id rs) 2 (joint_name m0 m1) old None crt fit 0])"
      by simp
    then show "fst ` set (fst (snd s')) = insert (m0, m1) (fst ` set (fst (snd (rs, mf, lg))))
       \<and> dom (params (fst s') 2) = dom (params (fst (rs, mf, lg)) 2)
       \<and> preferred_model (fst s') = preferred_model (fst (rs, mf, lg))
       \<and> read_id (fst s') = read_id (fst (rs, mf, lg))"
      using k by (auto simp: keys_dict_set)
  qed
qed

lemma together_round0_total:
  assumes "m0 \<in> fst ` set models" and "m1 \<in> fst ` set models"
    and "joint_name m0 m1 \<in> dom (params (fst s) 2)"
  shows "\<exists>s'. together_round0 co models transitions tes m0 m1 s = Inr s'"
proof -
  obtain rs mf lg where s: "s = (rs, mf, lg)" by (cases s) auto
  from dict_at_key [OF assms(1)] obtain pm0 where a: "dict_at models m0 = Inr pm0" by blast
  from dict_at_key [OF assms(2)] obtain pm1 where b: "dict_at models m1 = Inr pm1" by blast
  from assms(3) obtain p where c: "map_at (params rs 2) (joint_name m0 m1) = Inr p"
    by (auto simp: s map_at_def)
  show ?thesis
    unfolding s together_round0_def using a b c
    by (auto simp: ebind_def split: prod.splits)
qed

lemma together_inner_keys:
  "efold (together_round0 co models transitions tes m0) l1 s = Inr s' \<Longrightarrow>
     fst ` set (fst (snd s')) = fst ` set (fst (snd s)) \<union> {m0} \<times> set l1
     \<and> dom (params (fst s') 2) = dom (params (fst s) 2)
     \<and> preferred_model (fst s') = preferred_model (fst s)
     \<and> read_id (fst s') = read_id (fst s)"
proof (induction l1 arbitrary: s)
  case Nil
  then show ?case by simp
next
  case (Cons m1 l1)
  from Cons.prems obtain s1 where s1: "together_round0 co models transitions tes m0 m1 s = Inr s1"
    and rest: "efold (together_round0 co models transitions tes m0) l1 s1 = Inr s'"
    by (auto simp: ebind_Inr_iff)
  from together_round0_step [OF s1] Cons.IH [OF rest] show ?case by auto
qed

lemma together_outer_keys:
  "efold (\<lambda>m0. efold (together_round0 co models transitions tes m0) l1) l0 s = Inr s' \<Longrightarrow>
     fst ` set (fst (snd s')) = fst ` set (fst (snd s)) \<union> set l0 \<times> set l1
     \<and> dom (params (fst s') 2) = dom (params (fst s) 2)
     \<and> preferred_model (fst s') = preferred_model (fst s)
     \<and> read_id (fst s') = read_id (fst s)"
proof (induction l0 arbitrary: s)
  case Nil
  then show ?case by simp
next
  case (Cons m0 l0)
  from Cons.prems obtain s1
    where s1: "efold (together_round0 co models transitions tes m0) l1 s = Inr s1"
    and rest: "efold (\<lambda>m0. efold (together_round0 co models transitions tes m0) l1) l0 s1 = Inr s'"
    by (auto simp: ebind_Inr_iff)
  from together_inner_keys [OF s1] Cons.IH [OF rest] show ?case by auto
qed

lemma together_all_round0_total:
  fixes s :: "('e, 'f) Fast5_Summary \<times> (string \<times> string, 'f) dict \<times> 'f log_line list"
  assumes "set l0 \<subseteq> fst ` set models" and "set l1 \<subseteq> fst ` set models"
    and "\<forall>m0 \<in> set l0. \<forall>m1 \<in> set l1. joint_name m0 m1 \<in> dom (params (fst s) 2)"
  shows "\<exists>s'. efold (\<lambda>m0. efold (together_round0 co models transitions tes m0) l1) l0 s = Inr s'"
proof -
  let ?P = "\<lambda>t :: ('e, 'f) Fast5_Summary \<times> (string \<times> string, 'f) dict \<times> 'f log_line list.
              dom (params (fst t) 2) = dom (params (fst s) 2)"
  have inner: "\<exists>t'. efold (together_round0 co models transitions tes m0) l1 t = Inr t' \<and> ?P t'"
    if "m0 \<in> set l0" and "?P t" for m0 t
  proof (rule efold_total [where P = ?P, OF that(2)])
    fix m1 u assume m1: "m1 \<in> set l1" and u: "?P u"
    have j: "joint_name m0 m1 \<in> dom (params (fst u) 2)" using assms(3) that(1) m1 u by simp
    have k0: "m0 \<in> fst ` set models" using assms(1) that(1) by blast
    have k1: "m1 \<in> fst ` set models" using assms(2) m1 by blast
    from together_round0_total [OF k0 k1 j, where co = co and transitions = transitions
        and tes = tes]
    obtain u' where u': "together_round0 co models transitions tes m0 m1 u = Inr u'"
      by blast
    with together_round0_step [OF u'] u
    show "\<exists>u'. together_round0 co models transitions tes m0 m1 u = Inr u' \<and> ?P u'" by simp
  qed
  have "\<exists>s'. efold (\<lambda>m0. efold (together_round0 co models transitions tes m0) l1) l0 s = Inr s'
            \<and> ?P s'"
    by (rule efold_total [where P = ?P]) (use inner in auto)
  then show ?thesis by blast
qed

text \<open>
  The branch that scales the strands together, on every read whose two shortlists are not
  empty and whose \<open>params[2]\<close> has every joint name of the two shortlists
  (\<open>params[2].at\<close> throws otherwise). Round 0 trains every pair of the two shortlists; the
  pair with the largest round-0 fit is then selected whatever
  \<open>scale-select-model-single-round\<close> says (no hypothesis mentions that flag): it becomes
  \<open>preferred_model[0]\<close> and \<open>preferred_model[1]\<close>, and the remaining rounds run for that
  pair alone. Their final parameters are written to \<open>params[2]\<close> under the joint name and
  copied to \<open>params[0]\<close> and \<open>params[1]\<close> under the two model names. The fit is linearly
  ordered (no NaN).
\<close>

lemma together_selects_argmax:
  fixes cfg :: "('f::{linorder,plus,zero}) opts"
    and rs :: "('e, 'f) Fast5_Summary" and co :: "('e, 'm, 'f, 't) collab"
  assumes tog: "scale_strands_together cfg"
    and e0: "enough_events cfg rs 0" and e1: "enough_events cfg rs 1"
    and ml: "rescale_model_list cfg models rs = Inr model_list"
    and ne0: "model_list 0 \<noteq> []" and ne1: "model_list 1 \<noteq> []"
    and keys: "\<forall>m0 \<in> set (model_list 0). \<forall>m1 \<in> set (model_list 1).
                 joint_name m0 m1 \<in> dom (params rs 2)"
  shows "\<exists>rs1 model_fit lg1 a b fit pm_a pm_b p0 p_fin f_fin rnd lg2 rs'.
      together_all_round0 co models transitions (train_event_seqs cfg rs) model_list (rs, lg)
        = Inr (rs1, model_fit, lg1)
    \<and> fst ` set model_fit = set (model_list 0) \<times> set (model_list 1)
    \<and> max_of snd model_fit = Some ((a, b), fit)
    \<and> ((a, b), fit) \<in> set model_fit
    \<and> (\<forall>kv \<in> set model_fit. snd kv \<le> fit)
    \<and> dict_at models a = Inr pm_a \<and> dict_at models b = Inr pm_b
    \<and> params rs1 2 (joint_name a b) = Some p0
    \<and> converge_rounds cfg
          (train_one_round co (train_event_seqs cfg rs 0 @ train_event_seqs cfg rs 1)
             (model_ptrs (train_event_seqs cfg rs) pm_a pm_b) transitions)
          (read_id rs) 2 (joint_name a b) p0 (fit_of model_fit (a, b)) 1
          (lg1 @ [Selected_model (read_id rs) 2 (joint_name a b)])
        = (p_fin, f_fin, rnd, lg2)
    \<and> rescale_body cfg co models transitions (rs, lg)
        = Inr (rs', lg2 @ [Scaling_result (read_id rs) 2 (joint_name a b) p_fin f_fin rnd])
    \<and> preferred_model rs' 0 = a \<and> preferred_model rs' 1 = b
    \<and> params rs' 2 (joint_name a b) = Some p_fin
    \<and> params rs' 0 a = Some p_fin \<and> params rs' 1 b = Some p_fin"
proof -
  let ?tes = "train_event_seqs cfg rs"
  let ?l0 = "model_list 0" and ?l1 = "model_list 1"
  from ml have mleq: "model_list = (\<lambda>_. [])(0 := shortlist_of cfg models rs 0,
                                            1 := shortlist_of cfg models rs 1)"
    by (simp add: rescale_model_list_eq)
  have k0: "set ?l0 \<subseteq> fst ` set models" and k1: "set ?l1 \<subseteq> fst ` set models"
    using shortlist_of_keys [of cfg models rs] by (simp_all add: mleq)
  have keys': "\<forall>m0 \<in> set ?l0. \<forall>m1 \<in> set ?l1.
                 joint_name m0 m1 \<in> dom (params (fst (rs, [] :: (string \<times> string, 'f) dict, lg)) 2)"
    using keys by simp
  from together_all_round0_total [OF k0 k1 keys', where co = co and transitions = transitions
      and tes = ?tes]
  obtain s1 where s1: "efold (\<lambda>m0. efold (together_round0 co models transitions ?tes m0) ?l1)
                         ?l0 (rs, [], lg) = Inr s1"
    by blast
  obtain rs1 model_fit lg1 where s1eq: "s1 = (rs1, model_fit, lg1)" by (cases s1) auto
  have r0: "together_all_round0 co models transitions ?tes model_list (rs, lg)
              = Inr (rs1, model_fit, lg1)"
    using s1 s1eq by (simp add: together_all_round0_def)
  from together_outer_keys [OF s1]
  have kset: "fst ` set model_fit = set ?l0 \<times> set ?l1"
    and dom1: "dom (params rs1 2) = dom (params rs 2)"
    and pref1: "preferred_model rs1 = preferred_model rs"
    and rid1: "read_id rs1 = read_id rs"
    by (simp_all add: s1eq)
  have "model_fit \<noteq> []" using kset ne0 ne1 by (cases ?l0; cases ?l1) auto
  from max_of_nonempty [OF this] obtain best where best: "max_of snd model_fit = Some best"
    by blast
  obtain a b fit where besteq: "best = ((a, b), fit)" by (cases best) auto
  from max_of_Some [OF best]
  have mem: "((a, b), fit) \<in> set model_fit" and top: "\<forall>kv \<in> set model_fit. snd kv \<le> fit"
    by (simp_all add: besteq)
  from mem kset have ab: "a \<in> set ?l0" "b \<in> set ?l1" by (force simp: image_iff)+
  from dict_at_key [of a models] ab k0 obtain pm_a where pa: "dict_at models a = Inr pm_a"
    by blast
  from dict_at_key [of b models] ab k1 obtain pm_b where pb: "dict_at models b = Inr pm_b"
    by blast
  from keys ab dom1 obtain p0 where p0: "params rs1 2 (joint_name a b) = Some p0"
    by blast
  let ?rs2 = "rs1\<lparr>preferred_model := (preferred_model rs1)(0 := a, 1 := b)\<rparr>"
  let ?lgs = "lg1 @ [Selected_model (read_id rs) 2 (joint_name a b)]"
  obtain p_fin f_fin rnd lg2 where conv: "converge_rounds cfg
          (train_one_round co (?tes 0 @ ?tes 1) (model_ptrs ?tes pm_a pm_b) transitions)
          (read_id rs) 2 (joint_name a b) p0 (fit_of model_fit (a, b)) 1 ?lgs
        = (p_fin, f_fin, rnd, lg2)"
    using prod_cases4 by blast
  let ?rs' = "?rs2\<lparr>params := (params ?rs2)
                       (2 := (params ?rs2 2)(joint_name a b \<mapsto> p_fin),
                        0 := (params ?rs2 0)(a \<mapsto> p_fin),
                        1 := (params ?rs2 1)(b \<mapsto> p_fin))\<rparr>"
  have tc: "together_converge cfg co models transitions ?tes model_fit a b (?rs2, ?lgs)
          = Inr (?rs', lg2 @ [Scaling_result (read_id rs) 2 (joint_name a b) p_fin f_fin rnd])"
    using together_converge_result [of models a pm_a b pm_b ?rs2 p0 cfg co ?tes transitions
        model_fit ?lgs p_fin f_fin rnd lg2] pa pb p0 conv
    by (simp add: map_at_def rid1)
  have sel: "together_select cfg model_list model_fit (rs1, lg1)
          = Inr (?rs2, model_list(0 := [a], 1 := [b]), ?lgs)"
    by (simp add: together_select_def best besteq rid1)
  have body: "rescale_body cfg co models transitions (rs, lg)
        = Inr (?rs', lg2 @ [Scaling_result (read_id rs) 2 (joint_name a b) p_fin f_fin rnd])"
    using tog e0 e1
    by (simp add: rescale_body_def ml rescale_together_def r0 sel tc ebind_def Let_def
        del: One_nat_def)
  have fin: "preferred_model ?rs' 0 = a \<and> preferred_model ?rs' 1 = b
    \<and> params ?rs' 2 (joint_name a b) = Some p_fin
    \<and> params ?rs' 0 a = Some p_fin \<and> params ?rs' 1 b = Some p_fin"
    by simp
  from r0 kset best [unfolded besteq] mem top pa pb p0 conv body fin
  show ?thesis by blast
qed

lemma fx_model_list: "rescale_model_list fx_cfg fx_models fx_rs = Inr fx_ml"
  by (simp add: rescale_model_list_eq shortlist_of_def enough_events_def fx_cfg_def fx_rs_def
      dict_count_def fx_models_def strand_models_def fx_ml_def)

lemma together_selects_argmax_example:
  "scale_strands_together fx_cfg \<and> enough_events fx_cfg fx_rs 0 \<and> enough_events fx_cfg fx_rs 1
   \<and> rescale_model_list fx_cfg fx_models fx_rs = Inr fx_ml \<and> fx_ml 0 \<noteq> [] \<and> fx_ml 1 \<noteq> []
   \<and> (\<exists>rs1 model_fit lg1 a b fit pm_a pm_b p0 p_fin f_fin rnd lg2 rs'.
      together_all_round0 fx_co fx_models () (train_event_seqs fx_cfg fx_rs) fx_ml (fx_rs, [])
        = Inr (rs1, model_fit, lg1)
    \<and> fst ` set model_fit = set (fx_ml 0) \<times> set (fx_ml 1)
    \<and> max_of snd model_fit = Some ((a, b), fit)
    \<and> ((a, b), fit) \<in> set model_fit
    \<and> (\<forall>kv \<in> set model_fit. snd kv \<le> fit)
    \<and> dict_at fx_models a = Inr pm_a \<and> dict_at fx_models b = Inr pm_b
    \<and> params rs1 2 (joint_name a b) = Some p0
    \<and> converge_rounds fx_cfg
          (train_one_round fx_co (train_event_seqs fx_cfg fx_rs 0 @ train_event_seqs fx_cfg fx_rs 1)
             (model_ptrs (train_event_seqs fx_cfg fx_rs) pm_a pm_b) ())
          (read_id fx_rs) 2 (joint_name a b) p0 (fit_of model_fit (a, b)) 1
          (lg1 @ [Selected_model (read_id fx_rs) 2 (joint_name a b)])
        = (p_fin, f_fin, rnd, lg2)
    \<and> rescale_body fx_cfg fx_co fx_models () (fx_rs, [])
        = Inr (rs', lg2 @ [Scaling_result (read_id fx_rs) 2 (joint_name a b) p_fin f_fin rnd])
    \<and> preferred_model rs' 0 = a \<and> preferred_model rs' 1 = b
    \<and> params rs' 2 (joint_name a b) = Some p_fin
    \<and> params rs' 0 a = Some p_fin \<and> params rs' 1 b = Some p_fin)
   \<and> map_sum id (\<lambda>(rs', lg'). (preferred_model rs' 0, preferred_model rs' 1,
                                params rs' 2 ''u+u'', params rs' 0 ''u'', params rs' 1 ''u''))
        (rescale_body fx_cfg fx_co fx_models () (fx_rs, []))
      = Inr (''u'', ''u'', Some (fx_params 3), Some (fx_params 3), Some (fx_params 3))"
proof -
  have tog: "scale_strands_together fx_cfg" by (simp add: fx_cfg_def)
  have e0: "enough_events fx_cfg fx_rs 0" and e1: "enough_events fx_cfg fx_rs 1"
    by (simp_all add: enough_events_def fx_cfg_def fx_rs_def)
  have ne0: "fx_ml 0 \<noteq> []" and ne1: "fx_ml 1 \<noteq> []" by (simp_all add: fx_ml_def)
  have keys: "\<forall>m0 \<in> set (fx_ml 0). \<forall>m1 \<in> set (fx_ml 1).
                 joint_name m0 m1 \<in> dom (params fx_rs 2)"
    by (simp add: fx_ml_def fx_rs_def joint_name_def)
  have ev: "map_sum id (\<lambda>(rs', lg'). (preferred_model rs' 0, preferred_model rs' 1,
                                params rs' 2 ''u+u'', params rs' 0 ''u'', params rs' 1 ''u''))
        (rescale_body fx_cfg fx_co fx_models () (fx_rs, []))
      = Inr (''u'', ''u'', Some (fx_params 3), Some (fx_params 3), Some (fx_params 3))"
    by code_simp
  note w = together_selects_argmax [OF tog e0 e1 fx_model_list ne0 ne1 keys,
      where co = fx_co and transitions = "()" and lg = "[]"]
  from tog e0 e1 fx_model_list ne0 ne1 w ev show ?thesis by blast
qed

text \<open>
  Claim C1 at the input \<open>-m 0:foo -m 1:foo --scale-strands-together\<close>. \<open>init_models\<close>
  accepts the two names, and the dictionary it builds holds the single model \<open>foo\<close>, tagged
  strand 1. For a read with enough events on both strands the joint branch is taken with an
  empty shortlist for strand 0: the loop of round 0 runs over an empty product and leaves
  \<open>model_fit\<close> empty, \<open>max_of\<close> returns \<open>end()\<close>, and the selection dereferences it. No
  pair is selected and no parameters are written.
\<close>

theorem joint_selection_without_candidates:
  "init_models fx_cfg_foo fx_co = Inr fx_models_foo
   \<and> scale_strands_together fx_cfg_foo
   \<and> enough_events fx_cfg_foo fx_rs 0 \<and> enough_events fx_cfg_foo fx_rs 1
   \<and> map_sum id (\<lambda>model_list. (model_list 0, model_list 1))
        (rescale_model_list fx_cfg_foo fx_models_foo fx_rs) = Inr ([], [''foo''])
   \<and> map_sum id (\<lambda>(rs1, model_fit, lg1). (model_fit, lg1))
        (together_all_round0 fx_co fx_models_foo () (train_event_seqs fx_cfg_foo fx_rs)
           ((\<lambda>_. [])(0 := [], 1 := [''foo''])) (fx_rs, []))
      = Inr ([], [])
   \<and> max_of snd ([] :: ((string \<times> string) \<times> int) list) = None
   \<and> map_sum id (\<lambda>r. ())
        (together_select fx_cfg_foo ((\<lambda>_. [])(0 := [], 1 := [''foo''])) [] (fx_rs, []))
      = Inl Undefined_behaviour
   \<and> map_sum id (\<lambda>r. ())
        (rescale_together fx_cfg_foo fx_co fx_models_foo () ((\<lambda>_. [])(0 := [], 1 := [''foo'']))
           (train_event_seqs fx_cfg_foo fx_rs) (fx_rs, []))
      = Inl Undefined_behaviour
   \<and> map_sum id (\<lambda>r. ()) (rescale_body fx_cfg_foo fx_co fx_models_foo () (fx_rs, []))
      = Inl Undefined_behaviour
   \<and> map_sum id (\<lambda>r. ()) (rescale_process_item fx_cfg_foo fx_co fx_models_foo () (fx_rs, []))
      = Inl Undefined_behaviour
   \<and> map_sum id (\<lambda>r. ()) (rescale_reads fx_cfg_foo fx_co fx_models_foo () ([fx_rs], []))
      = Inl Undefined_behaviour"
  by code_simp

section \<open>Properties of the sequence records\<close>

declare chunks.simps [simp del]
declare dec.simps [simp del]

lemma concat_chunks: "0 < w \<Longrightarrow> concat (chunks w xs) = xs"
  by (induction w xs rule: chunks.induct) (subst chunks.simps, auto)

lemma length_chunks: "l \<in> set (chunks w xs) \<Longrightarrow> length l \<le> w \<and> l \<noteq> []"
  by (induction w xs rule: chunks.induct) (subst (asm) chunks.simps, auto split: if_splits)

text \<open>
  The positions \<open>write_fasta\<close> visits are the multiples of the width. While the sequence is
  no longer than the largest multiple of the width below \<open>2 ^ 32\<close>, the position after a line
  that starts inside the sequence is again below \<open>2 ^ 32\<close>, so \<open>pos += width\<close> does not wrap.
\<close>

lemma line_start_step:
  assumes w: "0 < (w :: nat)" and d: "w dvd p" and lt: "p < n"
    and fit: "n \<le> (4294967295 div w) * w"
  shows "p + w < 2 ^ 32"
proof -
  from d obtain j where j: "p = w * j" by (auto simp: dvd_def)
  have "w * j < n" using lt j by simp
  also note fit
  finally have "w * j < w * (4294967295 div w)" by (simp only: mult.commute)
  then have "j < 4294967295 div w"
    using mult_less_cancel1 [of w j "4294967295 div w"] by blast
  then have "j + 1 \<le> 4294967295 div w" by simp
  then have "(j + 1) * w \<le> (4294967295 div w) * w" by (rule mult_le_mono1)
  also have "\<dots> \<le> 4294967295" by simp
  finally show ?thesis using j by (simp add: mult.commute)
qed

lemma write_fasta_loop_lines:
  assumes nz: "width \<noteq> 0"
    and fit: "length seq \<le> (4294967295 div unat width) * unat width"
  shows "unat width dvd unat pos \<Longrightarrow> write_fasta_loop width seq pos os =
           Some (os @ concat (map (\<lambda>l. l @ [CHR 0x0A])
                               (chunks (unat width) (drop (unat pos) seq))))"
proof (induction "length seq - unat pos" arbitrary: pos os rule: less_induct)
  case less
  show ?case
  proof (cases "unat pos < length seq")
    case False
    then show ?thesis
      by (subst write_fasta_loop.simps) (simp add: chunks.simps)
  next
    case True
    have w: "0 < unat width" using nz by (simp add: unat_gt_0)
    have "unat pos + unat width < 2 ^ 32"
      using line_start_step [OF w less.prems True fit] .
    then have step: "unat (pos + width) = unat pos + unat width"
      by (simp add: unat_add_lem [THEN iffD1])
    have m: "length seq - unat (pos + width) < length seq - unat pos"
      using True w step by simp
    have d: "unat width dvd unat (pos + width)" using less.prems step by simp
    from less.hyps [OF m d, unfolded endl_def]
    have ih: "write_fasta_loop width seq (pos + width)
                (os @ take (unat width) (drop (unat pos) seq) @ [CHR 0x0A]) =
              Some ((os @ take (unat width) (drop (unat pos) seq) @ [CHR 0x0A])
                    @ concat (map (\<lambda>l. l @ [CHR 0x0A])
                        (chunks (unat width) (drop (unat (pos + width)) seq))))" .
    have c: "chunks (unat width) (drop (unat pos) seq) =
               take (unat width) (drop (unat pos) seq)
               # chunks (unat width) (drop (unat (pos + width)) seq)"
      using True w by (subst chunks.simps) (simp add: step add.commute)
    show ?thesis
      using True by (subst write_fasta_loop.simps) (simp add: ih c endl_def)
  qed
qed

lemma write_fasta_lines:
  assumes fit: "length seq
                  \<le> (4294967295 div unat (fasta_line_width cfg)) * unat (fasta_line_width cfg)"
  shows "write_fasta cfg os name seq =
           Some (os @ ''>'' @ name @ [CHR 0x0A]
                 @ concat (map (\<lambda>l. l @ [CHR 0x0A])
                             (chunks (unat (fasta_line_width cfg)) seq)))"
proof (cases "fasta_line_width cfg = 0")
  case True
  with fit have e: "seq = []" by simp
  show ?thesis
    unfolding write_fasta_def
    by (subst write_fasta_loop.simps) (simp add: e chunks.simps endl_def)
next
  case False
  from write_fasta_loop_lines [OF False fit, of 0 "os @ ''>'' @ name @ endl"]
  show ?thesis by (simp add: write_fasta_def endl_def)
qed

lemma write_fasta_loop_zero_width:
  assumes "write_fasta_loop width seq pos os = Some y"
  shows "width = 0 \<longrightarrow> \<not> unat pos < length seq"
proof (rule write_fasta_loop.raw_induct
    [where P = "\<lambda>w s p o' z. w = 0 \<longrightarrow> \<not> unat p < length s", OF _ assms])
  fix f :: "unsigned \<Rightarrow> string \<Rightarrow> unsigned \<Rightarrow> string \<Rightarrow> string option"
    and width seq pos os y
  assume ih: "\<And>w s p o' z. f w s p o' = Some z \<Longrightarrow> w = 0 \<longrightarrow> \<not> unat p < length s"
    and eq: "(if unat pos < length seq
              then f width seq (pos + width)
                     (os @ take (unat width) (drop (unat pos) seq) @ endl)
              else Some os) = Some y"
  show "width = 0 \<longrightarrow> \<not> unat pos < length seq"
  proof (cases "unat pos < length seq")
    case True
    with eq have "f width seq (pos + width)
                    (os @ take (unat width) (drop (unat pos) seq) @ endl) = Some y"
      by simp
    from ih [OF this] True show ?thesis by auto
  next
    case False
    then show ?thesis by simp
  qed
qed

lemma write_fasta_never_returns:
  assumes "fasta_line_width cfg = 0" and "seq \<noteq> []"
  shows "write_fasta cfg os name seq = None"
proof (cases "write_fasta cfg os name seq")
  case None
  then show ?thesis .
next
  case (Some y)
  from write_fasta_loop_zero_width [OF Some [unfolded write_fasta_def]] assms
  show ?thesis by simp
qed

text \<open>
  Claim C6, as the code has it. The line position \<open>pos\<close> of \<open>write_fasta\<close> is a 32-bit
  counter. For a base sequence that is no longer than the largest multiple of
  \<open>fasta_line_width\<close> below \<open>2 ^ 32\<close>, the record written for strand \<open>st\<close> of a read is the
  header line \<open>>\<close> followed by \<open>read_id:base_file_name:st\<close> and a newline, then the base
  sequence cut into non-empty lines of at most \<open>fasta_line_width\<close> characters (80 unless the
  option is given), each followed by a newline, whose concatenation is the base sequence. For
  width 0 the bound says that the sequence is empty; with width 0 and a non-empty sequence
  \<open>write_fasta\<close> never returns, so no record is emitted. The strands are 0 and 1, printed as
  the digits \<open>0\<close> and \<open>1\<close>.
\<close>

theorem fasta_record_shape:
  "(length seq \<le> (4294967295 div unat (fasta_line_width cfg)) * unat (fasta_line_width cfg)
      \<longrightarrow>
      (\<exists>lines. write_fasta cfg os (record_name rs st) seq =
           Some (os @ ''>'' @ read_id rs @ '':'' @ base_file_name rs @ '':'' @ dec st
                    @ [CHR 0x0A] @ concat (map (\<lambda>l. l @ [CHR 0x0A]) lines))
         \<and> concat lines = seq
         \<and> (\<forall>l \<in> set lines. length l \<le> unat (fasta_line_width cfg) \<and> l \<noteq> [])))
   \<and> (fasta_line_width cfg = 0 \<and> seq \<noteq> [] \<longrightarrow>
        write_fasta cfg os (record_name rs st) seq = None)
   \<and> dec 0 = ''0'' \<and> dec 1 = ''1''
   \<and> fasta_line_width (default_opts :: int opts) = 80"
proof (intro conjI impI)
  assume fit: "length seq
                 \<le> (4294967295 div unat (fasta_line_width cfg)) * unat (fasta_line_width cfg)"
  let ?ls = "chunks (unat (fasta_line_width cfg)) seq"
  have "write_fasta cfg os (record_name rs st) seq =
          Some (os @ ''>'' @ read_id rs @ '':'' @ base_file_name rs @ '':'' @ dec st
                   @ [CHR 0x0A] @ concat (map (\<lambda>l. l @ [CHR 0x0A]) ?ls))"
    using write_fasta_lines [OF fit, of os "record_name rs st"] by (simp add: record_name_def)
  moreover have "concat ?ls = seq"
  proof (cases "fasta_line_width cfg = 0")
    case True
    with fit show ?thesis by (simp add: chunks.simps)
  next
    case False
    then have "0 < unat (fasta_line_width cfg)" by (simp add: unat_gt_0)
    then show ?thesis by (rule concat_chunks)
  qed
  moreover have "\<forall>l \<in> set ?ls. length l \<le> unat (fasta_line_width cfg) \<and> l \<noteq> []"
    using length_chunks by blast
  ultimately show "\<exists>lines. write_fasta cfg os (record_name rs st) seq =
           Some (os @ ''>'' @ read_id rs @ '':'' @ base_file_name rs @ '':'' @ dec st
                    @ [CHR 0x0A] @ concat (map (\<lambda>l. l @ [CHR 0x0A]) lines))
         \<and> concat lines = seq
         \<and> (\<forall>l \<in> set lines. length l \<le> unat (fasta_line_width cfg) \<and> l \<noteq> [])"
    by (intro exI [of _ ?ls]) simp
next
  assume "fasta_line_width cfg = 0 \<and> seq \<noteq> []"
  then show "write_fasta cfg os (record_name rs st) seq = None"
    using write_fasta_never_returns by blast
next
  show "dec 0 = ''0''" and "dec 1 = ''1''" by (simp_all add: dec.simps)
next
  show "fasta_line_width (default_opts :: int opts) = 80" by (simp add: default_opts_def)
qed

theorem fasta_record_shape_witness:
  "length ''ACGTA''
     \<le> (4294967295 div unat (fasta_line_width fx_cfg)) * unat (fasta_line_width fx_cfg)
   \<and> write_fasta fx_cfg [] (record_name fx_rs 1) ''ACGTA''
       = Some (''>r1:a.fast5:1'' @ [CHR 0x0A] @ ''AC'' @ [CHR 0x0A] @ ''GT'' @ [CHR 0x0A]
               @ ''A'' @ [CHR 0x0A])
   \<and> (\<exists>lines. write_fasta fx_cfg [] (record_name fx_rs 1) ''ACGTA'' =
           Some ([] @ ''>'' @ read_id fx_rs @ '':'' @ base_file_name fx_rs @ '':'' @ dec 1
                    @ [CHR 0x0A] @ concat (map (\<lambda>l. l @ [CHR 0x0A]) lines))
         \<and> concat lines = ''ACGTA''
         \<and> (\<forall>l \<in> set lines. length l \<le> unat (fasta_line_width fx_cfg) \<and> l \<noteq> []))
   \<and> length ''AC''
       \<le> (4294967295 div unat (fasta_line_width (fx_cfg\<lparr>fasta_line_width := 4294967295\<rparr>)))
          * unat (fasta_line_width (fx_cfg\<lparr>fasta_line_width := 4294967295\<rparr>))
   \<and> write_fasta (fx_cfg\<lparr>fasta_line_width := 4294967295\<rparr>) [] (record_name fx_rs 0) ''AC''
       = Some (''>r1:a.fast5:0'' @ [CHR 0x0A] @ ''AC'' @ [CHR 0x0A])
   \<and> (\<exists>lines. write_fasta (fx_cfg\<lparr>fasta_line_width := 4294967295\<rparr>) []
                 (record_name fx_rs 0) ''AC'' =
           Some ([] @ ''>'' @ read_id fx_rs @ '':'' @ base_file_name fx_rs @ '':'' @ dec 0
                    @ [CHR 0x0A] @ concat (map (\<lambda>l. l @ [CHR 0x0A]) lines))
         \<and> concat lines = ''AC''
         \<and> (\<forall>l \<in> set lines.
               length l \<le> unat (fasta_line_width (fx_cfg\<lparr>fasta_line_width := 4294967295\<rparr>))
               \<and> l \<noteq> []))
   \<and> fasta_line_width (fx_cfg\<lparr>fasta_line_width := 0\<rparr>) = 0 \<and> ''A'' \<noteq> []
   \<and> write_fasta (fx_cfg\<lparr>fasta_line_width := 0\<rparr>) [] (record_name fx_rs 1) ''A'' = None"
proof -
  have n: "length ''ACGTA''
     \<le> (4294967295 div unat (fasta_line_width fx_cfg)) * unat (fasta_line_width fx_cfg)"
    by (simp add: fx_cfg_def)
  have m: "length ''AC''
       \<le> (4294967295 div unat (fasta_line_width (fx_cfg\<lparr>fasta_line_width := 4294967295\<rparr>)))
          * unat (fasta_line_width (fx_cfg\<lparr>fasta_line_width := 4294967295\<rparr>))"
    by simp
  have z: "fasta_line_width (fx_cfg\<lparr>fasta_line_width := 0\<rparr>) = 0 \<and> ''A'' \<noteq> []" by simp
  have ev: "write_fasta fx_cfg [] (record_name fx_rs 1) ''ACGTA''
       = Some (''>r1:a.fast5:1'' @ [CHR 0x0A] @ ''AC'' @ [CHR 0x0A] @ ''GT'' @ [CHR 0x0A]
               @ ''A'' @ [CHR 0x0A])"
    by (simp add: write_fasta_def write_fasta_loop.simps fx_cfg_def record_name_def fx_rs_def
        dec.simps endl_def)
  have ev2: "write_fasta (fx_cfg\<lparr>fasta_line_width := 4294967295\<rparr>) [] (record_name fx_rs 0) ''AC''
       = Some (''>r1:a.fast5:0'' @ [CHR 0x0A] @ ''AC'' @ [CHR 0x0A])"
    by (simp add: write_fasta_def write_fasta_loop.simps fx_cfg_def record_name_def fx_rs_def
        dec.simps endl_def)
  note a = fasta_record_shape [of "''ACGTA''" fx_cfg "[]" fx_rs 1]
  note b = fasta_record_shape [of "''AC''" "fx_cfg\<lparr>fasta_line_width := 4294967295\<rparr>" "[]" fx_rs 0]
  note c = fasta_record_shape [of "''A''" "fx_cfg\<lparr>fasta_line_width := 0\<rparr>" "[]" fx_rs 1]
  have a': "\<exists>lines. write_fasta fx_cfg [] (record_name fx_rs 1) ''ACGTA'' =
           Some ([] @ ''>'' @ read_id fx_rs @ '':'' @ base_file_name fx_rs @ '':'' @ dec 1
                    @ [CHR 0x0A] @ concat (map (\<lambda>l. l @ [CHR 0x0A]) lines))
         \<and> concat lines = ''ACGTA''
         \<and> (\<forall>l \<in> set lines. length l \<le> unat (fasta_line_width fx_cfg) \<and> l \<noteq> [])"
    using a n by blast
  have b': "\<exists>lines. write_fasta (fx_cfg\<lparr>fasta_line_width := 4294967295\<rparr>) []
                 (record_name fx_rs 0) ''AC'' =
           Some ([] @ ''>'' @ read_id fx_rs @ '':'' @ base_file_name fx_rs @ '':'' @ dec 0
                    @ [CHR 0x0A] @ concat (map (\<lambda>l. l @ [CHR 0x0A]) lines))
         \<and> concat lines = ''AC''
         \<and> (\<forall>l \<in> set lines.
               length l \<le> unat (fasta_line_width (fx_cfg\<lparr>fasta_line_width := 4294967295\<rparr>))
               \<and> l \<noteq> [])"
    using b m by blast
  have c': "write_fasta (fx_cfg\<lparr>fasta_line_width := 0\<rparr>) [] (record_name fx_rs 1) ''A'' = None"
    using c z by blast
  from n ev a' m ev2 b' z c' show ?thesis by blast
qed

text \<open>
  The claim as stated fails once the counter wraps. With a width of \<open>2 ^ 31 + 1\<close> and a
  sequence of \<open>2 ^ 31 + 2\<close> bases the positions are 0, \<open>2 ^ 31 + 1\<close>, then
  \<open>2 ^ 32 + 2\<close> wrapped to 2, which is again inside the sequence, and then \<open>2 ^ 31 + 3\<close>,
  where the loop ends. The record is emitted with three lines, of \<open>2 ^ 31 + 1\<close>, 1 and
  \<open>2 ^ 31\<close> bases: the third repeats the sequence from its third base on, and the lines
  together are not the base sequence.
\<close>

theorem fasta_record_shape_counterexample:
  "write_fasta (fx_cfg\<lparr>fasta_line_width := 2147483649\<rparr>) [] (record_name fx_rs 1)
       (replicate 2147483650 (CHR ''A''))
     = Some (''>r1:a.fast5:1'' @ [CHR 0x0A]
             @ replicate 2147483649 (CHR ''A'') @ [CHR 0x0A]
             @ replicate 1 (CHR ''A'') @ [CHR 0x0A]
             @ replicate 2147483648 (CHR ''A'') @ [CHR 0x0A])
   \<and> replicate 2147483649 (CHR ''A'') @ replicate 1 (CHR ''A'')
         @ replicate 2147483648 (CHR ''A'')
       \<noteq> replicate 2147483650 (CHR ''A'')"
proof
  show "write_fasta (fx_cfg\<lparr>fasta_line_width := 2147483649\<rparr>) [] (record_name fx_rs 1)
       (replicate 2147483650 (CHR ''A''))
     = Some (''>r1:a.fast5:1'' @ [CHR 0x0A]
             @ replicate 2147483649 (CHR ''A'') @ [CHR 0x0A]
             @ replicate 1 (CHR ''A'') @ [CHR 0x0A]
             @ replicate 2147483648 (CHR ''A'') @ [CHR 0x0A])"
    unfolding write_fasta_def
    apply (subst write_fasta_loop.simps)
    apply (subst write_fasta_loop.simps)
    apply (subst write_fasta_loop.simps)
    apply (subst write_fasta_loop.simps)
    apply (simp add: endl_def record_name_def fx_rs_def dec.simps)
    done
next
  have "length (replicate 2147483649 (CHR ''A'') @ replicate 1 (CHR ''A'')
                  @ replicate 2147483648 (CHR ''A''))
          \<noteq> length (replicate 2147483650 (CHR ''A''))"
    by (simp only: length_append length_replicate)
  then show "replicate 2147483649 (CHR ''A'') @ replicate 1 (CHR ''A'')
         @ replicate 2147483648 (CHR ''A'')
       \<noteq> replicate 2147483650 (CHR ''A'')"
    by metis
qed

section \<open>Properties of basecalling one read\<close>

lemma basecall_model_step:
  assumes "basecall_model co transitions st m_name (s, results) = Inr (s', results')"
  shows "s' = s \<and> (\<exists>r. results' = results @ [r] \<and> model_result co transitions s st m_name r)"
  using assms unfolding basecall_model_def prod.case
proof (elim ebind_InrE)
  fix pm0 p
  assume a: "dict_at (shared_models s) m_name = Inr pm0"
    and b: "map_at (params (read_summary s) st) m_name = Inr p"
    and c: "(let pm = pm_scale co pm0 p;
                 corrected_events0 = events (read_summary s) st;
                 corrected_events = apply_drift_correction co corrected_events0 (drift p)
             in case viterbi co pm transitions corrected_events of
                  (path_probability, base_seq) \<Rightarrow>
                    Inr (s, results @ [(path_probability, m_name, base_seq)]))
            = Inr (s', results')"
  from c have "s' = s" and "results' = results @
      [(fst (viterbi co (pm_scale co pm0 p) transitions
               (apply_drift_correction co (events (read_summary s) st) (drift p))),
        m_name,
        snd (viterbi co (pm_scale co pm0 p) transitions
               (apply_drift_correction co (events (read_summary s) st) (drift p))))]"
    by (simp_all add: Let_def split: prod.splits)
  with a b show ?thesis unfolding model_result_def by blast
qed

lemma basecall_models_fold:
  "efold (basecall_model co transitions st) ms (s, results) = Inr (s', results') \<Longrightarrow>
     s' = s \<and> (\<exists>new. results' = results @ new \<and> list_all2 (model_result co transitions s st) ms new)"
proof (induction ms arbitrary: results)
  case Nil
  then show ?case by simp
next
  case (Cons m ms)
  from Cons.prems obtain t where t: "basecall_model co transitions st m (s, results) = Inr t"
    and rest: "efold (basecall_model co transitions st) ms t = Inr (s', results')"
    by (auto simp: ebind_Inr_iff)
  obtain s1 r1 where teq: "t = (s1, r1)" by (cases t)
  from basecall_model_step [OF t [unfolded teq]] obtain r where s1: "s1 = s"
    and r1: "r1 = results @ [r]" and mr: "model_result co transitions s st m r" by blast
  from Cons.IH [OF rest [unfolded teq s1]] obtain new where "s' = s"
    and "results' = r1 @ new" and "list_all2 (model_result co transitions s st) ms new" by blast
  then show ?case using r1 mr by (intro conjI exI [of _ "r # new"]) simp_all
qed

lemma basecall_models_total:
  assumes "set ms \<subseteq> fst ` set (shared_models s)"
    and "set ms \<subseteq> dom (params (read_summary s) st)"
  shows "\<exists>results'. efold (basecall_model co transitions st) ms (s, results) = Inr (s, results')"
  using assms
proof (induction ms arbitrary: results)
  case Nil
  then show ?case by simp
next
  case (Cons m ms)
  from Cons.prems dict_at_key [of m "shared_models s"] obtain pm0
    where a: "dict_at (shared_models s) m = Inr pm0" by auto
  from Cons.prems obtain p where b: "map_at (params (read_summary s) st) m = Inr p"
    by (auto simp: map_at_def)
  let ?v = "viterbi co (pm_scale co pm0 p) transitions
              (apply_drift_correction co (events (read_summary s) st) (drift p))"
  define r where "r = (fst ?v, m, snd ?v)"
  have r: "basecall_model co transitions st m (s, results) = Inr (s, results @ [r])"
    unfolding basecall_model_def r_def using a b
    by (simp add: ebind_def Let_def case_prod_beta)
  from Cons.IH [of "results @ [r]"] Cons.prems
  obtain results' where "efold (basecall_model co transitions st) ms (s, results @ [r])
                           = Inr (s, results')" by auto
  with r show ?case by (auto simp: ebind_def)
qed

lemma sorted_le_last:
  fixes xs :: "('a::linorder) list"
  shows "sorted xs \<Longrightarrow> x \<in> set xs \<Longrightarrow> x \<le> last xs"
  by (induction xs) (auto split: if_splits)

lemma last_sort_max:
  fixes xs :: "('a::linorder) list"
  assumes "xs \<noteq> []"
  shows "last (sort xs) \<in> set xs \<and> (\<forall>x \<in> set xs. x \<le> last (sort xs))"
proof -
  have ne: "sort xs \<noteq> []" using assms by (metis set_empty set_sort)
  have "last (sort xs) \<in> set (sort xs)" using ne by (rule last_in_set)
  moreover have "\<forall>x \<in> set (sort xs). x \<le> last (sort xs)"
    using sorted_sort [of xs] sorted_le_last by blast
  ultimately show ?thesis by simp
qed

lemma basecall_sublist_keys:
  "set (basecall_model_sublist models rs st) \<subseteq> fst ` set models"
  using strand_models_keys [of models st]
  by (auto simp: basecall_model_sublist_def dict_count_iff)

lemma basecall_strand_Inr:
  fixes cfg :: "('f::linorder) opts"
  assumes en: "enough_events cfg (read_summary s) st"
    and run: "basecall_strand cfg co transitions st s = Inr s'"
  shows "\<exists>results os.
      list_all2 (model_result co transitions s st)
        (basecall_model_sublist (shared_models s) (read_summary s) st) results
    \<and> results \<noteq> []
    \<and> write_fasta cfg (oss s) (record_name (read_summary s) st)
          (snd (snd (last (sort results)))) = Some os
    \<and> s' = s\<lparr>read_summary := (read_summary s)
                 \<lparr>preferred_model := (preferred_model (read_summary s))
                     (st := fst (snd (last (sort results))))\<rparr>,
              oss := os\<rparr>"
proof -
  let ?ms = "basecall_model_sublist (shared_models s) (read_summary s) st"
  from run en obtain t where t: "efold (basecall_model co transitions st) ?ms (s, []) = Inr t"
    and rest: "(case t of (s1, results) \<Rightarrow>
             if results = [] then Inl Undefined_behaviour
             else
               let best_m_name = fst (snd (last (sort results)));
                   base_seq = snd (snd (last (sort results)));
                   s2 = s1\<lparr>read_summary := (read_summary s1)
                          \<lparr>preferred_model :=
                             (preferred_model (read_summary s1))(st := best_m_name)\<rparr>\<rparr>
               in case write_fasta cfg (oss s2) (record_name (read_summary s2) st) base_seq of
                    None \<Rightarrow> Inl Diverges
                  | Some os \<Rightarrow> Inr (s2\<lparr>oss := os\<rparr>)) = Inr s'"
    unfolding basecall_strand_def by (auto simp: ebind_Inr_iff)
  obtain s1 results where teq: "t = (s1, results)" by (cases t)
  from basecall_models_fold [OF t [unfolded teq]]
  have s1: "s1 = s" and la: "list_all2 (model_result co transitions s st) ?ms results"
    by auto
  from rest have ne: "results \<noteq> []" unfolding teq by (auto split: if_splits)
  from rest ne obtain os where
    wf: "write_fasta cfg (oss s) (record_name (read_summary s) st)
           (snd (snd (last (sort results)))) = Some os"
    and s': "s' = s\<lparr>read_summary := (read_summary s)
                 \<lparr>preferred_model := (preferred_model (read_summary s))
                     (st := fst (snd (last (sort results))))\<rparr>,
              oss := os\<rparr>"
    unfolding teq s1 by (auto simp: Let_def record_name_def split: option.splits)
  from la ne wf s' show ?thesis by blast
qed

lemma basecall_strand_run:
  fixes cfg :: "('f::linorder) opts"
  assumes en: "enough_events cfg (read_summary s) st"
    and ne: "basecall_model_sublist (shared_models s) (read_summary s) st \<noteq> []"
    and keys: "set (basecall_model_sublist (shared_models s) (read_summary s) st)
                 \<subseteq> dom (params (read_summary s) st)"
  shows "\<exists>results.
      list_all2 (model_result co transitions s st)
        (basecall_model_sublist (shared_models s) (read_summary s) st) results
    \<and> results \<noteq> []
    \<and> basecall_strand cfg co transitions st s =
        (case write_fasta cfg (oss s) (record_name (read_summary s) st)
                (snd (snd (last (sort results)))) of
           None \<Rightarrow> Inl Diverges
         | Some os \<Rightarrow>
             Inr (s\<lparr>read_summary := (read_summary s)
                       \<lparr>preferred_model := (preferred_model (read_summary s))
                           (st := fst (snd (last (sort results))))\<rparr>,
                    oss := os\<rparr>))"
proof -
  let ?ms = "basecall_model_sublist (shared_models s) (read_summary s) st"
  from basecall_models_total [OF basecall_sublist_keys keys, of co transitions "[]"]
  obtain results where r: "efold (basecall_model co transitions st) ?ms (s, []) = Inr (s, results)"
    by blast
  from basecall_models_fold [OF r]
  have la: "list_all2 (model_result co transitions s st) ?ms results" by auto
  then have nr: "results \<noteq> []" using ne by (auto simp: list_all2_Nil2)
  have "basecall_strand cfg co transitions st s =
        (case write_fasta cfg (oss s) (record_name (read_summary s) st)
                (snd (snd (last (sort results)))) of
           None \<Rightarrow> Inl Diverges
         | Some os \<Rightarrow>
             Inr (s\<lparr>read_summary := (read_summary s)
                       \<lparr>preferred_model := (preferred_model (read_summary s))
                           (st := fst (snd (last (sort results))))\<rparr>,
                    oss := os\<rparr>))"
    using en r nr by (simp add: basecall_strand_def ebind_def Let_def record_name_def)
  with la nr show ?thesis by blast
qed

text \<open>
  Claim C5, as the code has it. For a strand with enough events whose sublist is not empty
  and has parameters in \<open>params[st]\<close> for each of its models (\<open>params[st].at\<close> throws
  otherwise), Viterbi runs once per model of the sublist, in order, giving the tuples (path
  probability, model name, base sequence); the winner is the last element of the tuples
  sorted ascending, that is, a tuple no other exceeds. When the winner's base sequence is no
  longer than the largest multiple of \<open>fasta_line_width\<close> below \<open>2 ^ 32\<close>, the strand is
  processed to the end: the winner's model name becomes \<open>preferred_model[st]\<close> and the
  record of its base sequence is appended to the output buffer. With width 0 and a non-empty
  winning sequence \<open>write_fasta\<close> never returns and nothing is emitted. Path probabilities
  are linearly ordered (no NaN).
\<close>

theorem winner_is_last_of_sorted:
  fixes cfg :: "('f::linorder) opts"
  assumes en: "enough_events cfg (read_summary s) st"
    and ne: "basecall_model_sublist (shared_models s) (read_summary s) st \<noteq> []"
    and keys: "set (basecall_model_sublist (shared_models s) (read_summary s) st)
                 \<subseteq> dom (params (read_summary s) st)"
  shows "\<exists>results.
      list_all2 (model_result co transitions s st)
        (basecall_model_sublist (shared_models s) (read_summary s) st) results
    \<and> sorted (sort results) \<and> set (sort results) = set results
    \<and> last (sort results) \<in> set results
    \<and> (\<forall>r \<in> set results. r \<le> last (sort results))
    \<and> (length (snd (snd (last (sort results))))
          \<le> (4294967295 div unat (fasta_line_width cfg)) * unat (fasta_line_width cfg)
        \<longrightarrow> basecall_strand cfg co transitions st s =
              Inr (s\<lparr>read_summary := (read_summary s)
                        \<lparr>preferred_model := (preferred_model (read_summary s))
                            (st := fst (snd (last (sort results))))\<rparr>,
                     oss := oss s @ ''>'' @ read_id (read_summary s) @ '':''
                            @ base_file_name (read_summary s) @ '':'' @ dec st @ [CHR 0x0A]
                            @ concat (map (\<lambda>l. l @ [CHR 0x0A])
                                        (chunks (unat (fasta_line_width cfg))
                                           (snd (snd (last (sort results))))))\<rparr>))
    \<and> (fasta_line_width cfg = 0 \<and> snd (snd (last (sort results))) \<noteq> []
        \<longrightarrow> basecall_strand cfg co transitions st s = Inl Diverges)"
proof -
  from basecall_strand_run [OF en ne keys, of co transitions] obtain results where
    la: "list_all2 (model_result co transitions s st)
           (basecall_model_sublist (shared_models s) (read_summary s) st) results"
    and nr: "results \<noteq> []"
    and run: "basecall_strand cfg co transitions st s =
        (case write_fasta cfg (oss s) (record_name (read_summary s) st)
                (snd (snd (last (sort results)))) of
           None \<Rightarrow> Inl Diverges
         | Some os \<Rightarrow>
             Inr (s\<lparr>read_summary := (read_summary s)
                       \<lparr>preferred_model := (preferred_model (read_summary s))
                           (st := fst (snd (last (sort results))))\<rparr>,
                    oss := os\<rparr>))"
    by blast
  let ?seq = "snd (snd (last (sort results)))"
  have a: "length ?seq
          \<le> (4294967295 div unat (fasta_line_width cfg)) * unat (fasta_line_width cfg)
        \<longrightarrow> basecall_strand cfg co transitions st s =
              Inr (s\<lparr>read_summary := (read_summary s)
                        \<lparr>preferred_model := (preferred_model (read_summary s))
                            (st := fst (snd (last (sort results))))\<rparr>,
                     oss := oss s @ ''>'' @ read_id (read_summary s) @ '':''
                            @ base_file_name (read_summary s) @ '':'' @ dec st @ [CHR 0x0A]
                            @ concat (map (\<lambda>l. l @ [CHR 0x0A])
                                        (chunks (unat (fasta_line_width cfg)) ?seq))\<rparr>)"
  proof
    assume fit: "length ?seq
          \<le> (4294967295 div unat (fasta_line_width cfg)) * unat (fasta_line_width cfg)"
    show "basecall_strand cfg co transitions st s =
              Inr (s\<lparr>read_summary := (read_summary s)
                        \<lparr>preferred_model := (preferred_model (read_summary s))
                            (st := fst (snd (last (sort results))))\<rparr>,
                     oss := oss s @ ''>'' @ read_id (read_summary s) @ '':''
                            @ base_file_name (read_summary s) @ '':'' @ dec st @ [CHR 0x0A]
                            @ concat (map (\<lambda>l. l @ [CHR 0x0A])
                                        (chunks (unat (fasta_line_width cfg)) ?seq))\<rparr>)"
      unfolding run
      using write_fasta_lines [OF fit, of "oss s" "record_name (read_summary s) st"]
      by (simp add: record_name_def)
  qed
  have b: "fasta_line_width cfg = 0 \<and> ?seq \<noteq> []
        \<longrightarrow> basecall_strand cfg co transitions st s = Inl Diverges"
    unfolding run
    using write_fasta_never_returns [of cfg ?seq "oss s" "record_name (read_summary s) st"]
    by auto
  from la a b last_sort_max [OF nr]
  show ?thesis by (intro exI [of _ results]) simp
qed

lemmas fx_eval =
  basecall_strand_def basecall_model_def ebind_def dict_at_def map_at_def
  fx_bs_def fx_rs_def fx_models_def fx_co_def fx_cfg_def fx_params_def
  write_fasta_def write_fasta_loop.simps record_name_def dec.simps endl_def Let_def
  basecall_model_sublist_def dict_count_def strand_models_def enough_events_def

lemma fx_results:
  assumes "list_all2 (model_result fx_co () fx_bs 0) [''t'', ''u''] results"
  shows "results = [(60, ''t'', ''AAA''), (61, ''u'', ''CCC'')]"
proof -
  from assms obtain a b where r: "results = [a, b]"
    and a: "model_result fx_co () fx_bs 0 ''t'' a" and b: "model_result fx_co () fx_bs 0 ''u'' b"
    by (auto simp: list_all2_Cons1)
  from a have "a = (60, ''t'', ''AAA'')"
    by (auto simp: model_result_def dict_at_def map_at_def fx_bs_def fx_rs_def fx_models_def
        fx_co_def fx_params_def)
  moreover from b have "b = (61, ''u'', ''CCC'')"
    by (auto simp: model_result_def dict_at_def map_at_def fx_bs_def fx_rs_def fx_models_def
        fx_co_def fx_params_def)
  ultimately show ?thesis using r by simp
qed

theorem winner_is_last_of_sorted_witness:
  "enough_events fx_cfg (read_summary fx_bs) 0
   \<and> basecall_model_sublist (shared_models fx_bs) (read_summary fx_bs) 0 = [''t'', ''u'']
   \<and> (\<exists>results.
          list_all2 (model_result fx_co () fx_bs 0)
            (basecall_model_sublist (shared_models fx_bs) (read_summary fx_bs) 0) results
        \<and> results = [(60, ''t'', ''AAA''), (61, ''u'', ''CCC'')]
        \<and> last (sort results) = (61, ''u'', ''CCC'')
        \<and> length (snd (snd (last (sort results))))
            \<le> (4294967295 div unat (fasta_line_width fx_cfg)) * unat (fasta_line_width fx_cfg)
        \<and> basecall_strand fx_cfg fx_co () 0 fx_bs =
              Inr (fx_bs\<lparr>read_summary := (read_summary fx_bs)
                        \<lparr>preferred_model := (preferred_model (read_summary fx_bs))
                            (0 := fst (snd (last (sort results))))\<rparr>,
                     oss := oss fx_bs @ ''>'' @ read_id (read_summary fx_bs) @ '':''
                            @ base_file_name (read_summary fx_bs) @ '':'' @ dec 0 @ [CHR 0x0A]
                            @ concat (map (\<lambda>l. l @ [CHR 0x0A])
                                        (chunks (unat (fasta_line_width fx_cfg))
                                           (snd (snd (last (sort results))))))\<rparr>))
   \<and> map_sum id (\<lambda>s'. (preferred_model (read_summary s') 0, oss s'))
        (basecall_strand fx_cfg fx_co () 0 fx_bs)
      = Inr (''u'', ''>r1:a.fast5:0'' @ [CHR 0x0A] @ ''CC'' @ [CHR 0x0A] @ ''C'' @ [CHR 0x0A])
   \<and> map_sum id (\<lambda>(reads, os). (map (\<lambda>r. (preferred_model r 0, preferred_model r 1)) reads, os))
        (basecall_reads fx_cfg fx_co fx_models () [fx_rs])
      = Inr ([(''u'', ''u'')],
             ''>r1:a.fast5:0'' @ [CHR 0x0A] @ ''CC'' @ [CHR 0x0A] @ ''C'' @ [CHR 0x0A]
             @ ''>r1:a.fast5:1'' @ [CHR 0x0A] @ ''CC'' @ [CHR 0x0A])"
proof -
  have en: "enough_events fx_cfg (read_summary fx_bs) 0"
    by (simp add: enough_events_def fx_cfg_def fx_bs_def fx_rs_def)
  have sl: "basecall_model_sublist (shared_models fx_bs) (read_summary fx_bs) 0 = [''t'', ''u'']"
    by (simp add: basecall_model_sublist_def fx_bs_def fx_rs_def fx_models_def dict_count_def
        strand_models_def)
  have ne: "basecall_model_sublist (shared_models fx_bs) (read_summary fx_bs) 0 \<noteq> []"
    by (simp add: sl)
  have dm: "set (basecall_model_sublist (shared_models fx_bs) (read_summary fx_bs) 0)
              \<subseteq> dom (params (read_summary fx_bs) 0)"
    unfolding sl by (simp add: fx_bs_def fx_rs_def)
  have ev: "map_sum id (\<lambda>s'. (preferred_model (read_summary s') 0, oss s'))
        (basecall_strand fx_cfg fx_co () 0 fx_bs)
      = Inr (''u'', ''>r1:a.fast5:0'' @ [CHR 0x0A] @ ''CC'' @ [CHR 0x0A] @ ''C'' @ [CHR 0x0A])"
    by (simp add: fx_eval)
  have rd: "map_sum id (\<lambda>(reads, os). (map (\<lambda>r. (preferred_model r 0, preferred_model r 1)) reads, os))
        (basecall_reads fx_cfg fx_co fx_models () [fx_rs])
      = Inr ([(''u'', ''u'')],
             ''>r1:a.fast5:0'' @ [CHR 0x0A] @ ''CC'' @ [CHR 0x0A] @ ''C'' @ [CHR 0x0A]
             @ ''>r1:a.fast5:1'' @ [CHR 0x0A] @ ''CC'' @ [CHR 0x0A])"
    by code_simp
  from winner_is_last_of_sorted [OF en ne dm, where co = fx_co and transitions = "()"]
  obtain results where
    la: "list_all2 (model_result fx_co () fx_bs 0)
            (basecall_model_sublist (shared_models fx_bs) (read_summary fx_bs) 0) results"
    and imp: "length (snd (snd (last (sort results))))
          \<le> (4294967295 div unat (fasta_line_width fx_cfg)) * unat (fasta_line_width fx_cfg)
        \<longrightarrow> basecall_strand fx_cfg fx_co () 0 fx_bs =
              Inr (fx_bs\<lparr>read_summary := (read_summary fx_bs)
                        \<lparr>preferred_model := (preferred_model (read_summary fx_bs))
                            (0 := fst (snd (last (sort results))))\<rparr>,
                     oss := oss fx_bs @ ''>'' @ read_id (read_summary fx_bs) @ '':''
                            @ base_file_name (read_summary fx_bs) @ '':'' @ dec 0 @ [CHR 0x0A]
                            @ concat (map (\<lambda>l. l @ [CHR 0x0A])
                                        (chunks (unat (fasta_line_width fx_cfg))
                                           (snd (snd (last (sort results))))))\<rparr>)"
    by blast
  have req: "results = [(60, ''t'', ''AAA''), (61, ''u'', ''CCC'')]"
    using la fx_results by (simp add: sl)
  have lst: "last (sort results) = (61, ''u'', ''CCC'')"
    by (simp add: req)
  have fit: "length (snd (snd (last (sort results))))
          \<le> (4294967295 div unat (fasta_line_width fx_cfg)) * unat (fasta_line_width fx_cfg)"
    by (simp add: lst fx_cfg_def)
  from imp fit have run: "basecall_strand fx_cfg fx_co () 0 fx_bs =
              Inr (fx_bs\<lparr>read_summary := (read_summary fx_bs)
                        \<lparr>preferred_model := (preferred_model (read_summary fx_bs))
                            (0 := fst (snd (last (sort results))))\<rparr>,
                     oss := oss fx_bs @ ''>'' @ read_id (read_summary fx_bs) @ '':''
                            @ base_file_name (read_summary fx_bs) @ '':'' @ dec 0 @ [CHR 0x0A]
                            @ concat (map (\<lambda>l. l @ [CHR 0x0A])
                                        (chunks (unat (fasta_line_width fx_cfg))
                                           (snd (snd (last (sort results))))))\<rparr>)"
    by blast
  from en sl la req lst fit run ev rd show ?thesis by blast
qed

text \<open>
  The claim as stated fails for \<open>--fasta-line-width 0\<close>, a width the command line accepts.
  Strand 0 of the read has enough events and the sublist \<open>t\<close>, \<open>u\<close>; Viterbi runs for both
  and \<open>u\<close> wins with the sequence \<open>CCC\<close>, but \<open>pos += 0\<close> never leaves the loop of
  \<open>write_fasta\<close>: the strand is never finished and the winner's base sequence is not emitted.
  (The claim also fails on an empty sublist, where \<open>results.back()\<close> is undefined; that
  input, \<open>-m 0:foo -m 1:foo\<close>, is evaluated at the end of this theory.)
\<close>

theorem winner_is_last_of_sorted_counterexample:
  "enough_events (fx_cfg\<lparr>fasta_line_width := 0\<rparr>) (read_summary fx_bs) 0
   \<and> basecall_model_sublist (shared_models fx_bs) (read_summary fx_bs) 0 = [''t'', ''u'']
   \<and> efold (basecall_model fx_co () 0) [''t'', ''u''] (fx_bs, [])
       = Inr (fx_bs, [(60, ''t'', ''AAA''), (61, ''u'', ''CCC'')])
   \<and> last (sort [(60 :: int, ''t'', ''AAA''), (61, ''u'', ''CCC'')]) = (61, ''u'', ''CCC'')
   \<and> write_fasta (fx_cfg\<lparr>fasta_line_width := 0\<rparr>) [] (record_name fx_rs 0) ''CCC'' = None
   \<and> basecall_strand (fx_cfg\<lparr>fasta_line_width := 0\<rparr>) fx_co () 0 fx_bs = Inl Diverges
   \<and> basecall_process_item (fx_cfg\<lparr>fasta_line_width := 0\<rparr>) fx_co () fx_bs = Inl Diverges"
proof -
  have en: "enough_events (fx_cfg\<lparr>fasta_line_width := 0\<rparr>) (read_summary fx_bs) 0"
    by (simp add: enough_events_def fx_cfg_def fx_bs_def fx_rs_def)
  have sl: "basecall_model_sublist (shared_models fx_bs) (read_summary fx_bs) 0 = [''t'', ''u'']"
    by (simp add: basecall_model_sublist_def fx_bs_def fx_rs_def fx_models_def dict_count_def
        strand_models_def)
  have fold: "efold (basecall_model fx_co () 0) [''t'', ''u''] (fx_bs, [])
       = Inr (fx_bs, [(60, ''t'', ''AAA''), (61, ''u'', ''CCC'')])"
    by (simp add: basecall_model_def ebind_def dict_at_def map_at_def fx_bs_def fx_rs_def
        fx_models_def fx_co_def fx_params_def Let_def)
  have lst: "last (sort [(60 :: int, ''t'', ''AAA''), (61, ''u'', ''CCC'')]) = (61, ''u'', ''CCC'')"
    by simp
  have wf: "write_fasta (fx_cfg\<lparr>fasta_line_width := 0\<rparr>) os name ''CCC'' = None" for os name
    by (rule write_fasta_never_returns) simp_all
  have run: "basecall_strand (fx_cfg\<lparr>fasta_line_width := 0\<rparr>) fx_co () 0 fx_bs = Inl Diverges"
    unfolding basecall_strand_def sl fold using en
    by (simp add: ebind_def Let_def wf)
  have ld: "fx_bs\<lparr>read_summary :=
               load_events fx_co (scale_strands_together (fx_cfg\<lparr>fasta_line_width := 0\<rparr>))
                 (read_summary fx_bs)\<rparr> = fx_bs"
    by (simp add: fx_bs_def fx_co_def)
  have item: "basecall_process_item (fx_cfg\<lparr>fasta_line_width := 0\<rparr>) fx_co () fx_bs
                = Inl Diverges"
    unfolding basecall_process_item_def ld basecall_body_def
    by (simp add: run ebind_def)
  from en sl fold lst wf run item show ?thesis by blast
qed

lemma model_result_frame:
  assumes "same_frame s s1"
  shows "model_result co transitions s1 st = model_result co transitions s st"
proof (intro ext)
  fix m r
  show "model_result co transitions s1 st m r = model_result co transitions s st m r"
    using assms by (simp add: same_frame_def model_result_def)
qed

lemma basecall_strand_frame:
  fixes cfg :: "('f::linorder) opts"
  assumes "basecall_strand cfg co transitions st s = Inr s'"
  shows "same_frame s s'
       \<and> (\<forall>st'. st' \<noteq> st \<longrightarrow>
             preferred_model (read_summary s') st' = preferred_model (read_summary s) st')"
proof (cases "enough_events cfg (read_summary s) st")
  case False
  with assms show ?thesis by (simp add: basecall_strand_def same_frame_def)
next
  case True
  from basecall_strand_Inr [OF True assms] show ?thesis
    by (auto simp: same_frame_def)
qed

text \<open>
  Claim C10. Between \<open>load_events\<close> and \<open>drop_events\<close>, processing a read leaves
  \<open>events[0]\<close>, \<open>events[1]\<close> and the shared model dictionary as they were. For each strand
  with enough events, every model of the sublist is evaluated on a scaled copy of its
  dictionary entry and on a drift-corrected copy of the events as they were loaded, also for
  strand 1 after strand 0 has been processed.
\<close>

theorem basecall_leaves_events_and_models:
  fixes cfg :: "('f::linorder) opts"
  assumes run: "basecall_body cfg co transitions s = Inr s'"
  shows "events (read_summary s') = events (read_summary s)
       \<and> shared_models s' = shared_models s
       \<and> (\<forall>st \<in> {0, 1}. enough_events cfg (read_summary s) st \<longrightarrow>
            (\<exists>results.
                list_all2
                  (\<lambda>m_name r. \<exists>pm0 p.
                      dict_at (shared_models s) m_name = Inr pm0
                    \<and> map_at (params (read_summary s) st) m_name = Inr p
                    \<and> r = (fst (viterbi co (pm_scale co pm0 p) transitions
                                   (apply_drift_correction co (events (read_summary s) st)
                                      (drift p))),
                            m_name,
                            snd (viterbi co (pm_scale co pm0 p) transitions
                                   (apply_drift_correction co (events (read_summary s) st)
                                      (drift p)))))
                  (basecall_model_sublist (shared_models s) (read_summary s) st) results
              \<and> preferred_model (read_summary s') st = fst (snd (last (sort results)))))"
proof -
  from run obtain s1 where a: "basecall_strand cfg co transitions 0 s = Inr s1"
    and b: "basecall_strand cfg co transitions 1 s1 = Inr s'"
    by (auto simp: basecall_body_def ebind_Inr_iff)
  from basecall_strand_frame [OF a] have f1: "same_frame s s1"
    and p1: "preferred_model (read_summary s1) 1 = preferred_model (read_summary s) 1"
    by simp_all
  from basecall_strand_frame [OF b] have f2: "same_frame s1 s'"
    and p2: "preferred_model (read_summary s') 0 = preferred_model (read_summary s1) 0"
    by simp_all
  have mr: "model_result co transitions s st =
      (\<lambda>m_name r. \<exists>pm0 p.
                      dict_at (shared_models s) m_name = Inr pm0
                    \<and> map_at (params (read_summary s) st) m_name = Inr p
                    \<and> r = (fst (viterbi co (pm_scale co pm0 p) transitions
                                   (apply_drift_correction co (events (read_summary s) st)
                                      (drift p))),
                            m_name,
                            snd (viterbi co (pm_scale co pm0 p) transitions
                                   (apply_drift_correction co (events (read_summary s) st)
                                      (drift p)))))" for st
    by (simp add: model_result_def fun_eq_iff)
  have s0: "\<exists>results. list_all2 (model_result co transitions s 0)
                  (basecall_model_sublist (shared_models s) (read_summary s) 0) results
              \<and> preferred_model (read_summary s') 0 = fst (snd (last (sort results)))"
    if en: "enough_events cfg (read_summary s) 0"
  proof -
    from basecall_strand_Inr [OF en a] obtain results where
      "list_all2 (model_result co transitions s 0)
         (basecall_model_sublist (shared_models s) (read_summary s) 0) results"
      and "preferred_model (read_summary s1) 0 = fst (snd (last (sort results)))"
      by auto
    with p2 show ?thesis by auto
  qed
  have s1: "\<exists>results. list_all2 (model_result co transitions s 1)
                  (basecall_model_sublist (shared_models s) (read_summary s) 1) results
              \<and> preferred_model (read_summary s') 1 = fst (snd (last (sort results)))"
    if en: "enough_events cfg (read_summary s) 1"
  proof -
    from en f1 have en1: "enough_events cfg (read_summary s1) 1"
      by (simp add: enough_events_def same_frame_def)
    have sl: "basecall_model_sublist (shared_models s1) (read_summary s1) 1
                = basecall_model_sublist (shared_models s) (read_summary s) 1"
      using f1 p1 by (simp add: basecall_model_sublist_def same_frame_def)
    from basecall_strand_Inr [OF en1 b] obtain results where
      "list_all2 (model_result co transitions s1 1)
         (basecall_model_sublist (shared_models s1) (read_summary s1) 1) results"
      and "preferred_model (read_summary s') 1 = fst (snd (last (sort results)))"
      by auto
    then have "list_all2 (model_result co transitions s 1)
         (basecall_model_sublist (shared_models s) (read_summary s) 1) results"
      and "preferred_model (read_summary s') 1 = fst (snd (last (sort results)))"
      unfolding sl model_result_frame [OF f1, of co transitions 1] by auto
    then show ?thesis by blast
  qed
  from f1 f2 have "events (read_summary s') = events (read_summary s)"
    and "shared_models s' = shared_models s"
    by (simp_all add: same_frame_def)
  then show ?thesis using s0 s1 unfolding mr by auto
qed

theorem basecall_leaves_events_and_models_witness:
  "(\<exists>s'. basecall_body fx_cfg fx_co () fx_bs = Inr s'
      \<and> events (read_summary s') = events (read_summary fx_bs)
      \<and> shared_models s' = shared_models fx_bs)
   \<and> enough_events fx_cfg (read_summary fx_bs) 0 \<and> enough_events fx_cfg (read_summary fx_bs) 1
   \<and> map_sum id (\<lambda>s'. (events (read_summary s') 0, events (read_summary s') 1,
                        shared_models s', preferred_model (read_summary s') 0,
                        preferred_model (read_summary s') 1, oss s'))
        (basecall_body fx_cfg fx_co () fx_bs)
      = Inr ([10, 20, 30], [40, 50], fx_models, ''u'', ''u'',
             ''>r1:a.fast5:0'' @ endl @ ''CC'' @ endl @ ''C'' @ endl
             @ ''>r1:a.fast5:1'' @ endl @ ''CC'' @ endl)"
proof -
  have ev: "map_sum id (\<lambda>s'. (events (read_summary s') 0, events (read_summary s') 1,
                        shared_models s', preferred_model (read_summary s') 0,
                        preferred_model (read_summary s') 1, oss s'))
        (basecall_body fx_cfg fx_co () fx_bs)
      = Inr ([10, 20, 30], [40, 50], fx_models, ''u'', ''u'',
             ''>r1:a.fast5:0'' @ endl @ ''CC'' @ endl @ ''C'' @ endl
             @ ''>r1:a.fast5:1'' @ endl @ ''CC'' @ endl)"
    by (simp add: basecall_body_def fx_eval)
  then obtain s' where s': "basecall_body fx_cfg fx_co () fx_bs = Inr s'"
    by (cases "basecall_body fx_cfg fx_co () fx_bs") auto
  have en: "enough_events fx_cfg (read_summary fx_bs) 0"
    "enough_events fx_cfg (read_summary fx_bs) 1"
    by (simp_all add: enough_events_def fx_cfg_def fx_bs_def fx_rs_def)
  from basecall_leaves_events_and_models [OF s'] s' en ev show ?thesis by blast
qed

section \<open>Properties of initialisation and the main routine\<close>

lemma pfor_empty: "pfor 0 process_item s = Inr s"
  by (simp add: pfor_def dispense.simps)

lemma dispense_upto:
  assumes "n < 2 ^ 32" and "unat crt_idx \<le> n"
  shows "dispense n crt_idx items = Some (items @ map of_nat [unat crt_idx..<n])"
  using assms(2)
proof (induction "n - unat crt_idx" arbitrary: crt_idx items)
  case 0
  then show ?case by (subst dispense.simps) simp
next
  case (Suc k)
  then have lt: "unat crt_idx < n" by simp
  then have "unat crt_idx + 1 < 2 ^ 32" using assms(1) by simp
  then have step: "unat (crt_idx + 1) = unat crt_idx + 1"
    by (simp add: unat_add_lem [THEN iffD1])
  have k: "k = n - unat (crt_idx + 1)" using Suc(2) step by simp
  have le: "unat (crt_idx + 1) \<le> n" using lt step by simp
  have "dispense n crt_idx items = dispense n (crt_idx + 1) (items @ [crt_idx])"
    using lt by (subst dispense.simps) simp
  also have "\<dots> = Some ((items @ [crt_idx]) @ map of_nat [unat (crt_idx + 1)..<n])"
    by (rule Suc(1) [OF k le])
  also have "(items @ [crt_idx]) @ map of_nat [unat (crt_idx + 1)..<n]
               = items @ map of_nat [unat crt_idx..<n]"
    using lt by (simp add: step upt_conv_Cons)
  finally show ?case .
qed

text \<open>
  The producer half of the output order: with fewer than \<open>2 ^ 32\<close> reads, \<open>get_item\<close> hands
  out the indices \<open>0, 1, ..., n - 1\<close> in increasing order and then returns false.
\<close>

lemma get_item_order:
  assumes "n < 2 ^ 32"
  shows "dispense n 0 [] = Some (map of_nat [0..<n])"
  using dispense_upto [OF assms, of 0 "[]"] by simp

text \<open>
  Claim C7, as the code has it. When the input arguments yield no valid file, \<open>init_files\<close>
  logs \<open>no fast5 files to process\<close> and the program exits with \<open>EXIT_FAILURE\<close>. When files
  were found but no read passes the filter of \<open>init_reads\<close>, nothing is reported: both passes
  run over the empty read set, nothing is written, and \<open>real_main\<close> returns
  \<open>EXIT_SUCCESS\<close>.
\<close>

theorem no_reads_outcome:
  fixes cfg :: "('f::{linorder,plus,zero}) opts"
  shows "(found_files cfg co = [] \<longrightarrow>
            init_files cfg co = Inl (Exit_failure ''no fast5 files to process''))
       \<and> (init_models cfg co = Inr models \<and> init_transitions cfg co = Inr transitions
            \<and> found_files cfg co = [] \<longrightarrow>
            real_main cfg co = Inl (Exit_failure ''no fast5 files to process'')
            \<and> exit_status (real_main cfg co) = Some EXIT_FAILURE)
       \<and> (init_models cfg co = Inr models \<and> init_transitions cfg co = Inr transitions
            \<and> found_files cfg co \<noteq> []
            \<and> init_reads cfg co models (found_files cfg co) = [] \<longrightarrow>
            real_main cfg co =
              Inr \<lparr>exit_code = EXIT_SUCCESS, sequence_output = [],
                   stats_output = (if stats_fn cfg \<noteq> [] then Some [] else None),
                   scaling_log = []\<rparr>
            \<and> exit_status (real_main cfg co) = Some EXIT_SUCCESS)"
  by (simp add: real_main_def init_files_def ebind_def exit_status_def rescale_reads_def
      basecall_reads_def pfor_empty Let_def)

theorem no_reads_outcome_witness:
  "found_files fx_cfg_none fx_co = []
   \<and> init_files fx_cfg_none fx_co = Inl (Exit_failure ''no fast5 files to process'')
   \<and> real_main fx_cfg_none fx_co = Inl (Exit_failure ''no fast5 files to process'')
   \<and> exit_status (real_main fx_cfg_none fx_co) = Some EXIT_FAILURE
   \<and> found_files fx_cfg_empty fx_co \<noteq> []
   \<and> init_reads fx_cfg_empty fx_co
        [(''c'', \<lparr>strand = 1, table = 0\<rparr>), (''t'', \<lparr>strand = 0, table = 0\<rparr>)]
        (found_files fx_cfg_empty fx_co) = []
   \<and> real_main fx_cfg_empty fx_co =
        Inr \<lparr>exit_code = EXIT_SUCCESS, sequence_output = [],
             stats_output = (if stats_fn fx_cfg_empty \<noteq> [] then Some [] else None),
             scaling_log = []\<rparr>
   \<and> exit_status (real_main fx_cfg_empty fx_co) = Some EXIT_SUCCESS"
proof -
  have m0: "init_models fx_cfg_none fx_co
              = Inr [(''c'', \<lparr>strand = 1, table = 0\<rparr>), (''t'', \<lparr>strand = 0, table = 0\<rparr>)]"
    and m1: "init_models fx_cfg_empty fx_co
              = Inr [(''c'', \<lparr>strand = 1, table = 0\<rparr>), (''t'', \<lparr>strand = 0, table = 0\<rparr>)]"
    by (simp_all add: init_models_def fx_cfg_none_def fx_cfg_empty_def fx_cfg_def fx_co_def
        ebind_def)
  have t0: "init_transitions fx_cfg_none fx_co = Inr ()"
    and t1: "init_transitions fx_cfg_empty fx_co = Inr ()"
    by (simp_all add: init_transitions_def fx_cfg_none_def fx_cfg_empty_def fx_cfg_def)
  have f0: "found_files fx_cfg_none fx_co = []"
    by (simp add: found_files_def fx_cfg_none_def fx_cfg_def)
  have f1: "found_files fx_cfg_empty fx_co \<noteq> []"
    by (simp add: found_files_def fx_cfg_empty_def fx_cfg_def fx_co_def)
  have r1: "init_reads fx_cfg_empty fx_co
        [(''c'', \<lparr>strand = 1, table = 0\<rparr>), (''t'', \<lparr>strand = 0, table = 0\<rparr>)]
        (found_files fx_cfg_empty fx_co) = []"
    by (simp add: init_reads_def found_files_def fx_cfg_empty_def fx_cfg_def fx_co_def)
  note a = no_reads_outcome [of fx_cfg_none fx_co
      "[(''c'', \<lparr>strand = 1, table = 0\<rparr>), (''t'', \<lparr>strand = 0, table = 0\<rparr>)]" "()"]
  note b = no_reads_outcome [of fx_cfg_empty fx_co
      "[(''c'', \<lparr>strand = 1, table = 0\<rparr>), (''t'', \<lparr>strand = 0, table = 0\<rparr>)]" "()"]
  from a b m0 m1 t0 t1 f0 f1 r1 show ?thesis by blast
qed

text \<open>
  The claim as stated fails: one input file whose read has no detected events leaves the read
  set empty, and the program returns exit code 0 with no output and no diagnostic.
\<close>

theorem no_reads_outcome_counterexample:
  "map have_ed_events (map (\<lambda>f. summary_of fx_co f [] False) (found_files fx_cfg_empty fx_co))
     = [False]
   \<and> real_main fx_cfg_empty fx_co =
       Inr \<lparr>exit_code = 0, sequence_output = [], stats_output = None, scaling_log = []\<rparr>
   \<and> exit_status (real_main fx_cfg_empty fx_co) = Some 0"
  by code_simp

lemma assertion_never_fails: "rescale_model_list cfg models rs \<noteq> Inl Assertion_failed"
  by (simp add: rescale_model_list_eq)

text \<open>
  Claim C9 at the input \<open>-m 0:foo -m 1:foo\<close>. The check of \<open>init_models\<close> passes, since
  names were given for both strands, but the second model replaces the first under the key
  \<open>foo\<close>, so the dictionary holds one model, tagged strand 1. For a read with enough events on
  strand 0 the shortlist of strand 0 is then empty in both passes; the assertion, which tests
  the array of two lists, does not fire, and the run goes on to dereference \<open>end()\<close> (scaling
  the strands together) or to call \<open>back()\<close> on an empty deque (basecalling).
\<close>

theorem same_file_for_both_strands:
  "init_models fx_cfg_foo fx_co = Inr fx_models_foo
   \<and> enough_events fx_cfg_foo fx_rs 0
   \<and> map_sum id (\<lambda>model_list. (model_list 0, model_list 1))
        (rescale_model_list fx_cfg_foo fx_models_foo fx_rs) = Inr ([], [''foo''])
   \<and> basecall_model_sublist fx_models_foo fx_rs 0 = []
   \<and> map_sum id (\<lambda>r. ()) (rescale_body fx_cfg_foo fx_co fx_models_foo () (fx_rs, []))
      = Inl Undefined_behaviour
   \<and> map_sum id (\<lambda>r. ()) (basecall_strand fx_cfg_foo fx_co () 0
        \<lparr>shared_models = fx_models_foo, read_summary = fx_rs, oss = []\<rparr>)
      = Inl Undefined_behaviour"
  by code_simp

end
